theory Spec2Isabelle
  imports Complex_Main "HOL-Library.AList" "HOL-Library.Sublist"
    "HOL-Library.Char_ord" "HOL-Library.List_Lexorder" "HOL-Library.Multiset"
begin

section \<open>Values shared by the services\<close>

text \<open>
  JSON documents, as Python's \<^verbatim>\<open>json\<close> module reads and writes them. A Python
  \<^verbatim>\<open>dict\<close> is an association list in insertion order whose keys are distinct.
\<close>

datatype json =
    JNull
  | JBool bool
  | JInt int
  | JFloat real
  | JStr string
  | JList "json list"
  | JDict "(string \<times> json) list"



datatype py_exn =
    TypeError | ValueError | KeyError | AttributeError

text \<open>\<^verbatim>\<open>d.get(key, default)\<close>: only a dict has the method.\<close>

fun py_get :: "json \<Rightarrow> string \<Rightarrow> json \<Rightarrow> py_exn + json" where
  "py_get (JDict kvs) k dflt = Inr (case map_of kvs k of None \<Rightarrow> dflt | Some v \<Rightarrow> v)"
| "py_get v k dflt = Inl AttributeError"

text \<open>\<^verbatim>\<open>d[key]\<close> with a string key.\<close>

fun py_getitem :: "json \<Rightarrow> string \<Rightarrow> py_exn + json" where
  "py_getitem (JDict kvs) k = (case map_of kvs k of None \<Rightarrow> Inl KeyError | Some v \<Rightarrow> Inr v)"
| "py_getitem v k = Inl TypeError"

text \<open>
  A \<^verbatim>\<open>datetime\<close> is a count of microseconds; it is naive (what
  \<^verbatim>\<open>datetime.now()\<close> returns) or carries a UTC offset. Subtracting an aware
  value from a naive one raises \<^verbatim>\<open>TypeError\<close>.
\<close>

datatype py_datetime = Naive int | Aware int

text \<open>
  \<^verbatim>\<open>timedelta.total_seconds()\<close>, as the exact quotient. The source compares it
  with the integer constants 3600 and 86400 only, where the rounding of the quotient to
  a double does not change the outcome of the comparison.
\<close>

definition total_seconds :: "int \<Rightarrow> real" where
  "total_seconds d = real_of_int d / 1000000"

text \<open>\<^verbatim>\<open>(datetime.now() - timestamp).total_seconds()\<close>\<close>

fun age_seconds :: "int \<Rightarrow> py_datetime \<Rightarrow> py_exn + real" where
  "age_seconds now (Naive t) = Inr (total_seconds (now - t))"
| "age_seconds now (Aware t) = Inl TypeError"

text \<open>
  \<^verbatim>\<open>datetime.fromisoformat(x)\<close> on a JSON value: a value that is not a string
  raises \<^verbatim>\<open>TypeError\<close>, a string that does not parse raises
  \<^verbatim>\<open>ValueError\<close>. The parser itself is Python's and is a parameter.
\<close>

fun fromisoformat_json :: "(string \<Rightarrow> py_datetime option) \<Rightarrow> json \<Rightarrow> py_exn + py_datetime" where
  "fromisoformat_json parse (JStr s) = (case parse s of None \<Rightarrow> Inl ValueError | Some t \<Rightarrow> Inr t)"
| "fromisoformat_json parse v = Inl TypeError"

section \<open>services/cache.py: CacheManager\<close>

text \<open>
  The content of a JSON file on disk: absent, present but rejected by
  \<^verbatim>\<open>json.load\<close>, or holding a document.
\<close>

datatype json_file = NoFile | Corrupt | Parsed json

text \<open>
  \<^verbatim>\<open>_memory_cache: Optional[Dict]\<close> is a JSON value, \<open>JNull\<close> for
  \<^verbatim>\<open>None\<close>; \<open>cache_file\<close> is the content of the file at the manager's path.
\<close>

record cache_manager =
  ttl :: int
  memory_cache :: json
  memory_timestamp :: "py_datetime option"
  cache_file :: json_file

text \<open>\<^verbatim>\<open>CacheManager.is_valid\<close>\<close>

fun is_valid :: "int \<Rightarrow> int \<Rightarrow> py_datetime option \<Rightarrow> py_exn + bool" where
  "is_valid ttl_s now None = Inr False"
| "is_valid ttl_s now (Some timestamp) =
     (case age_seconds now timestamp of
        Inl e \<Rightarrow> Inl e
      | Inr age \<Rightarrow> Inr (age < real_of_int ttl_s))"

text \<open>\<^verbatim>\<open>CacheManager.get_memory\<close>\<close>

definition get_memory :: "cache_manager \<Rightarrow> int \<Rightarrow> py_exn + (json \<times> bool)" where
  "get_memory c now =
     (case is_valid (ttl c) now (memory_timestamp c) of
        Inl e \<Rightarrow> Inl e
      | Inr v \<Rightarrow> if v then Inr (memory_cache c, True) else Inr (JNull, False))"

text \<open>
  The body of the \<^verbatim>\<open>try\<close> block of \<^verbatim>\<open>get_disk\<close> after
  \<^verbatim>\<open>json.load\<close>: \<open>Inr None\<close> when the block ends without returning.
\<close>

definition read_cached :: "(string \<Rightarrow> py_datetime option) \<Rightarrow> int \<Rightarrow> int \<Rightarrow> json \<Rightarrow> py_exn + json option" where
  "read_cached parse ttl_s now cached =
     (case py_get cached ''_timestamp'' (JStr []) of
        Inl e \<Rightarrow> Inl e
      | Inr ts \<Rightarrow>
         (case fromisoformat_json parse ts of
            Inl e \<Rightarrow> Inl e
          | Inr timestamp \<Rightarrow>
             (case is_valid ttl_s now (Some timestamp) of
                Inl e \<Rightarrow> Inl e
              | Inr v \<Rightarrow>
                 if v then (case py_getitem cached ''data'' of
                              Inl e \<Rightarrow> Inl e
                            | Inr d \<Rightarrow> Inr (Some d))
                 else Inr None)))"

text \<open>
  \<^verbatim>\<open>CacheManager.get_disk\<close>: every exception of the block is logged and the
  method returns \<^verbatim>\<open>(None, False)\<close>, here \<open>(JNull, False)\<close>.
\<close>

definition get_disk :: "(string \<Rightarrow> py_datetime option) \<Rightarrow> cache_manager \<Rightarrow> int \<Rightarrow> json \<times> bool" where
  "get_disk parse c now =
     (case cache_file c of
        NoFile \<Rightarrow> (JNull, False)
      | Corrupt \<Rightarrow> (JNull, False)
      | Parsed cached \<Rightarrow>
         (case read_cached parse (ttl c) now cached of
            Inl e \<Rightarrow> (JNull, False)
          | Inr None \<Rightarrow> (JNull, False)
          | Inr (Some d) \<Rightarrow> (d, True)))"

text \<open>
  How a write of a file ends: it succeeds, it fails before the file is touched, or it
  fails after the file was truncated (what is left is not a JSON document).
\<close>

datatype write_outcome = WriteOk | FailUntouched | FailTruncated



text \<open>\<^verbatim>\<open>CacheManager.clear\<close>\<close>

definition clear :: "cache_manager \<Rightarrow> cache_manager" where
  "clear c = c\<lparr>memory_cache := JNull, memory_timestamp := None, cache_file := NoFile\<rparr>"

section \<open>services/api_client.py\<close>








subsection \<open>The cascade as the specification words it\<close>

text \<open>A snapshot is not empty: it holds a non-empty list under the key \<open>data\<close>.\<close>

definition has_services :: "json \<Rightarrow> bool" where
  "has_services d =
     (case d of
        JDict kvs \<Rightarrow> (case map_of kvs ''data'' of Some (JList xs) \<Rightarrow> xs \<noteq> [] | _ \<Rightarrow> False)
      | _ \<Rightarrow> False)"





text \<open>
  What every operation of the cache keeps: the memory tier, once stamped, holds a
  snapshot that \<^verbatim>\<open>set\<close> received (the stamp is a naive \<^verbatim>\<open>datetime.now()\<close>),
  and so does a record of the cache file. \<^verbatim>\<open>set\<close> is only called on a
  snapshot that passed the test of the live tier.
\<close>

definition cache_inv :: "cache_manager \<Rightarrow> bool" where
  "cache_inv c =
     ((case memory_timestamp c of
         None \<Rightarrow> True
       | Some (Naive t) \<Rightarrow> has_services (memory_cache c)
       | Some (Aware t) \<Rightarrow> False) \<and>
      (case cache_file c of
         Parsed cached \<Rightarrow>
           (case py_getitem cached ''data'' of Inr v \<Rightarrow> has_services v | Inl e \<Rightarrow> True)
       | _ \<Rightarrow> True))"

text \<open>The manager as \<^verbatim>\<open>CacheManager(CACHE_FILE, CACHE_DURATION_SECONDS)\<close> builds it.\<close>

definition CACHE_DURATION_SECONDS :: int where
  "CACHE_DURATION_SECONDS = 3600"

definition new_cache_manager :: "json_file \<Rightarrow> int \<Rightarrow> cache_manager" where
  "new_cache_manager file ttl_s =
     \<lparr>ttl = ttl_s, memory_cache = JNull, memory_timestamp = None, cache_file = file\<rparr>"

subsection \<open>A cache for the examples\<close>

definition demo_parse :: "string \<Rightarrow> py_datetime option" where
  "demo_parse s = (if s = ''1970-01-01T00:00:00'' then Some (Naive 0) else None)"


definition demo_snapshot :: json where
  "demo_snapshot = JDict [(''data'', JList [JDict [(''id'', JStr ''1'')]])]"

definition demo_cache :: cache_manager where
  "demo_cache = new_cache_manager
     (Parsed (JDict [(''data'', demo_snapshot), (''_timestamp'', JStr ''1970-01-01T00:00:00'')]))
     CACHE_DURATION_SECONDS"


section \<open>services/loop_protector.py: LoopProtector\<close>

text \<open>
  A record of the ledger is \<^verbatim>\<open>Tuple[str, str, str]\<close>: the ISO text of the time
  it was saved, the path of the filled form and its file id. The ledger file is absent,
  rejected while it is read (no JSON, or no object of such records), or an object of
  records; the keys of an object are distinct.
\<close>

type_synonym ledger_record = "string \<times> string \<times> string"

datatype ledger_file = NoLedger | BadLedger | Ledger "(string \<times> ledger_record) list"

record loop_protector =
  hashes :: "(string \<times> ledger_record) list"
  dedupe_file :: ledger_file

text \<open>
  The comprehension of \<^verbatim>\<open>_load\<close>: it keeps the records less than 86400
  seconds old, and an exception at one record ends it.
\<close>

fun keep_recent ::
  "(string \<Rightarrow> py_datetime option) \<Rightarrow> int \<Rightarrow> (string \<times> ledger_record) list
     \<Rightarrow> py_exn + (string \<times> ledger_record) list" where
  "keep_recent parse now [] = Inr []"
| "keep_recent parse now ((k, v) # rest) =
     (case fromisoformat_json parse (JStr (fst v)) of
        Inl e \<Rightarrow> Inl e
      | Inr timestamp \<Rightarrow>
         (case age_seconds now timestamp of
            Inl e \<Rightarrow> Inl e
          | Inr age \<Rightarrow>
             (case keep_recent parse now rest of
                Inl e \<Rightarrow> Inl e
              | Inr kept \<Rightarrow> Inr (if age < 86400 then (k, v) # kept else kept))))"

text \<open>\<^verbatim>\<open>LoopProtector._load\<close>: a bare \<^verbatim>\<open>except\<close> turns every failure into
  the empty ledger.\<close>

definition load :: "(string \<Rightarrow> py_datetime option) \<Rightarrow> int \<Rightarrow> ledger_file \<Rightarrow> (string \<times> ledger_record) list" where
  "load parse now file =
     (case file of
        NoLedger \<Rightarrow> []
      | BadLedger \<Rightarrow> []
      | Ledger data \<Rightarrow> (case keep_recent parse now data of Inl e \<Rightarrow> [] | Inr kept \<Rightarrow> kept))"

text \<open>\<^verbatim>\<open>LoopProtector.__init__\<close>\<close>

definition new_loop_protector :: "(string \<Rightarrow> py_datetime option) \<Rightarrow> int \<Rightarrow> ledger_file \<Rightarrow> loop_protector" where
  "new_loop_protector parse now file = \<lparr>hashes = load parse now file, dedupe_file = file\<rparr>"

fun write_ledger :: "write_outcome \<Rightarrow> (string \<times> ledger_record) list \<Rightarrow> ledger_file \<Rightarrow> ledger_file" where
  "write_ledger WriteOk h old = Ledger h"
| "write_ledger FailUntouched h old = old"
| "write_ledger FailTruncated h old = BadLedger"

text \<open>\<^verbatim>\<open>LoopProtector.save\<close>: a failed write is swallowed.\<close>

definition save ::
  "(int \<Rightarrow> string) \<Rightarrow> write_outcome \<Rightarrow> int \<Rightarrow> loop_protector \<Rightarrow> string \<Rightarrow> string \<Rightarrow> string
     \<Rightarrow> loop_protector" where
  "save isoformat w now p key path file_id =
     (let h = AList.update key (isoformat now, path, file_id) (hashes p)
      in p\<lparr>hashes := h, dedupe_file := write_ledger w h (dedupe_file p)\<rparr>)"

text \<open>\<^verbatim>\<open>LoopProtector.check\<close>\<close>

definition check :: "loop_protector \<Rightarrow> string \<Rightarrow> (string \<times> string) option" where
  "check p key =
     (case map_of (hashes p) key of
        Some (timestamp, path, file_id) \<Rightarrow> Some (path, file_id)
      | None \<Rightarrow> None)"

text \<open>
  A ledger as \<^verbatim>\<open>save\<close> writes it: every record's first component parses to a
  naive time.
\<close>

definition written_by_save :: "(string \<Rightarrow> py_datetime option) \<Rightarrow> (string \<times> ledger_record) list \<Rightarrow> bool" where
  "written_by_save parse data =
     list_all (\<lambda>(k, v). case parse (fst v) of Some (Naive t) \<Rightarrow> True | _ \<Rightarrow> False) data"

definition demo_parse2 :: "string \<Rightarrow> py_datetime option" where
  "demo_parse2 s =
     (if s = ''1970-01-01T00:00:00'' then Some (Naive 0)
      else if s = ''1970-01-01T02:00:00'' then Some (Naive 7200000000)
      else None)"

definition demo_ledger :: "(string \<times> ledger_record) list" where
  "demo_ledger =
     [(''old'', (''1970-01-01T00:00:00'', ''/forms/a.pdf'', ''aaaaaaaaaaaa'')),
      (''new'', (''1970-01-01T02:00:00'', ''/forms/b.pdf'', ''bbbbbbbbbbbb''))]"

section \<open>services/form_logic.py\<close>

subsection \<open>Strings\<close>

text \<open>
  Characters that a string literal cannot hold, Python's \<^verbatim>\<open>sub in s\<close> and
  \<^verbatim>\<open>s.endswith(suffix)\<close> on strings, \<^verbatim>\<open>sep.join(parts)\<close> and
  \<^verbatim>\<open>str(n)\<close> of a natural number.
\<close>

definition apos :: string where
  "apos = [CHR 0x27]"

definition dquote :: string where
  "dquote = [CHR 0x22]"

definition newline :: string where
  "newline = [CHR 0x0A]"

fun contains :: "string \<Rightarrow> string \<Rightarrow> bool" where
  "contains [] sub = (sub = [])"
| "contains (c # cs) sub = (prefix sub (c # cs) \<or> contains cs sub)"

definition endswith :: "string \<Rightarrow> string \<Rightarrow> bool" where
  "endswith s suff = prefix (rev suff) (rev s)"

fun join :: "string \<Rightarrow> string list \<Rightarrow> string" where
  "join sep [] = []"
| "join sep [x] = x"
| "join sep (x # y # ys) = x @ sep @ join sep (y # ys)"

function str_nat :: "nat \<Rightarrow> string" where
  "str_nat n =
     (if n < 10 then [''0123456789'' ! n]
      else str_nat (n div 10) @ [''0123456789'' ! (n mod 10)])"
  by pat_completeness auto
termination
  by (relation "measure id") auto

declare str_nat.simps [simp del]

subsection \<open>What the module takes from its libraries and its configuration\<close>

text \<open>
  A PDF form field as PyMuPDF presents it. \<open>field_name\<close> is the empty string when
  PyMuPDF gives \<^verbatim>\<open>None\<close> or \<^verbatim>\<open>""\<close>, which the source treats alike.
\<close>

record widget =
  field_name :: string
  field_label :: "string option"
  field_type :: nat
  field_value :: "string option"

definition PDF_WIDGET_TYPE_CHECKBOX :: nat where
  "PDF_WIDGET_TYPE_CHECKBOX = 2"

text \<open>
  The functions of Python's library and of PyMuPDF that the module calls, and the
  constants of \<^verbatim>\<open>config.py\<close>. They are parameters of the model:
  \<^item> \<open>hexdigest_md5 s\<close> is \<^verbatim>\<open>hashlib.md5(s.encode()).hexdigest()\<close>;
  \<^item> \<open>dumps_str s\<close> is \<^verbatim>\<open>json.dumps(s)\<close> of a string, quoted and escaped;
  \<^item> \<open>str_lower\<close> is \<^verbatim>\<open>str.lower\<close>, \<open>path_name p\<close> is \<^verbatim>\<open>Path(p).name\<close>;
  \<^item> \<open>dt_isoformat\<close> and \<open>dt_strftime_hms\<close> are \<^verbatim>\<open>isoformat()\<close> and
    \<^verbatim>\<open>strftime('%H%M%S')\<close> of a naive time;
  \<^item> \<open>b64encode\<close> is \<^verbatim>\<open>base64.b64encode(b).decode('utf-8')\<close>;
  \<^item> \<open>forms_cache_file n\<close> and \<open>filled_forms_file n\<close> are the paths
    \<^verbatim>\<open>FORMS_CACHE_DIR / n\<close> and \<^verbatim>\<open>FILLED_FORMS_DIR / n\<close>, which are absolute
    because \<^verbatim>\<open>BASE_DATA_DIR\<close> is;
  \<^item> \<open>fitz_open b\<close> is the widgets of each page of the document with the bytes
    \<open>b\<close>, or the message of the exception of \<^verbatim>\<open>fitz.open\<close>;
  \<^item> \<open>fitz_save b ws appearance deflate\<close> is the bytes that \<^verbatim>\<open>doc.save\<close>
    writes for the document opened from \<open>b\<close> whose named widgets are now \<open>ws\<close>, or
    the message of its exception.
\<close>

record lib =
  hexdigest_md5 :: "string \<Rightarrow> string"
  dumps_str :: "string \<Rightarrow> string"
  str_lower :: "string \<Rightarrow> string"
  path_name :: "string \<Rightarrow> string"
  dt_isoformat :: "int \<Rightarrow> string"
  dt_strftime_hms :: "int \<Rightarrow> string"
  b64encode :: "string \<Rightarrow> string"
  forms_cache_file :: "string \<Rightarrow> string"
  filled_forms_file :: "string \<Rightarrow> string"
  remote_api_url :: string
  fitz_open :: "string \<Rightarrow> string + widget list list"
  fitz_save :: "string \<Rightarrow> widget list \<Rightarrow> bool \<Rightarrow> bool \<Rightarrow> string + string"
  IS_REMOTE :: bool
  IS_CLOUD :: bool

text \<open>
  What one call of \<^verbatim>\<open>perform_form_filling_logic\<close> meets outside the process:
  the outcome of the download (the body, or the message of the exception), the clock at
  the calls of \<^verbatim>\<open>datetime.now()\<close> whose value is used, the outcome of the write
  of the ledger file, the order in which the \<^verbatim>\<open>set\<close> of keys is iterated,
  the measured times of the telemetry, and what \<^verbatim>\<open>w.update()\<close> does for the
  widget at a position of the list of named widgets once it has its new value:
  \<open>None\<close> when it returns, the message of its exception otherwise (PyMuPDF raises, for
  one, when the page of the widget is no longer bound).
\<close>

record fill_io =
  http_get :: "string + string"
  total_start :: int
  now_filename :: int
  now_register :: int
  now_save :: int
  ledger_write :: write_outcome
  set_order :: "string list \<Rightarrow> string list"
  elapsed_ms :: "string \<Rightarrow> json"
  update_raises :: "nat \<Rightarrow> widget \<Rightarrow> string option"

text \<open>
  The state of the server process: the ledger (\<^verbatim>\<open>_protector\<close>), the files on
  disk by path, and the manifest of \<^verbatim>\<open>_file_sync\<close>.
\<close>

record server =
  protector :: loop_protector
  files :: "string \<Rightarrow> string option"
  manifest :: "(string \<times> json) list"

text \<open>\<^verbatim>\<open>RemoteFileSyncManager.register_file\<close>\<close>

definition register_file :: "lib \<Rightarrow> int \<Rightarrow> (string \<times> json) list \<Rightarrow> string \<Rightarrow> string \<Rightarrow> nat \<Rightarrow> (string \<times> json) list" where
  "register_file l now m file_id file_path file_size =
     AList.update file_id
       (JDict [(''path'', JStr file_path),
               (''size'', JInt (int file_size)),
               (''remote_url'', JStr (remote_api_url l @ ''/files/'' @ file_id)),
               (''created_at'', JStr (dt_isoformat l now))]) m"

subsection \<open>The request fingerprint\<close>

text \<open>
  \<^verbatim>\<open>json.dumps(field_data, sort_keys=True)\<close> of a \<^verbatim>\<open>Dict[str, str]\<close>: the
  items sorted by key, with the separators \<^verbatim>\<open>", "\<close> and \<^verbatim>\<open>": "\<close>. Strings
  are ordered as Python orders them, by code point, which is the order of their UTF-8
  bytes.
\<close>

definition dumps_sorted :: "(string \<Rightarrow> string) \<Rightarrow> (string \<times> string) list \<Rightarrow> string" where
  "dumps_sorted enc field_data =
     ''{'' @ join '', '' (map (\<lambda>(k, v). enc k @ '': '' @ enc v) (sort_key fst field_data)) @ ''}''"

definition request_key :: "lib \<Rightarrow> string \<Rightarrow> (string \<times> string) list \<Rightarrow> string" where
  "request_key l form_url field_data =
     hexdigest_md5 l (form_url @ '':'' @ dumps_sorted (dumps_str l) field_data)"

subsection \<open>The field matcher\<close>

text \<open>
  The named widgets in document order, and \<^verbatim>\<open>widget_map\<close>: the position in
  that list of the widget a name stands for, which is the last one of that name.
\<close>

definition index_widgets :: "widget list list \<Rightarrow> widget list" where
  "index_widgets pages = filter (\<lambda>w. field_name w \<noteq> []) (concat pages)"

definition widget_map :: "widget list \<Rightarrow> (string \<times> nat) list" where
  "widget_map ws = fold (\<lambda>(i, w). AList.update (field_name w) i) (enumerate 0 ws) []"

record fill_state =
  widgets :: "widget list"
  filled_count :: nat
  unmatched_keys :: "string list"
  matched_fields_info :: "(string \<times> string) list"

text \<open>The bookkeeping after a widget was given its value and updated.\<close>

definition record_match :: "string \<Rightarrow> nat \<Rightarrow> widget \<Rightarrow> fill_state \<Rightarrow> fill_state" where
  "record_match key i w st =
     st\<lparr>widgets := (widgets st)[i := w],
        filled_count := filled_count st + 1,
        unmatched_keys := removeAll key (unmatched_keys st),
        matched_fields_info := AList.update key (field_name w) (matched_fields_info st)\<rparr>"

text \<open>
  \<^verbatim>\<open>w.update()\<close> and the bookkeeping that follows it. The call is inside the
  \<^verbatim>\<open>try\<close> block: when it raises, the passes end there with the message of the
  exception (\<open>Inl\<close>).
\<close>

definition update_and_record :: "fill_io \<Rightarrow> string \<Rightarrow> nat \<Rightarrow> widget \<Rightarrow> fill_state \<Rightarrow> string + fill_state" where
  "update_and_record io key i w st =
     (case update_raises io i w of
        Some msg \<Rightarrow> Inl msg
      | None \<Rightarrow> Inr (record_match key i w st))"

text \<open>The widget with the value that the first pass assigns to it (lines 173 to 177).\<close>

definition coerce_exact :: "lib \<Rightarrow> widget \<Rightarrow> string \<Rightarrow> widget" where
  "coerce_exact l w val =
     (if field_type w = PDF_WIDGET_TYPE_CHECKBOX
      then w\<lparr>field_value :=
             Some (if str_lower l val \<in> set [''yes'', ''true'', ''1'', ''on'', ''x'']
                   then ''Yes'' else ''Off'')\<rparr>
      else w\<lparr>field_value := Some val\<rparr>)"

text \<open>The body of the loop of the first pass, for one key.\<close>

definition fill_exact :: "lib \<Rightarrow> fill_io \<Rightarrow> (string \<times> string) list \<Rightarrow> (string \<times> nat) list \<Rightarrow> string \<Rightarrow> fill_state \<Rightarrow> string + fill_state" where
  "fill_exact l io field_data wmap key st =
     (case map_of wmap key of
        None \<Rightarrow> Inr st
      | Some i \<Rightarrow>
         (case map_of field_data key of
            None \<Rightarrow> Inr st
          | Some val \<Rightarrow> update_and_record io key i (coerce_exact l (widgets st ! i) val) st))"

text \<open>\<^verbatim>\<open>COMMON_MAPPINGS\<close>; a-umlaut and sharp s are their UTF-8 bytes.\<close>

definition a_umlaut :: string where
  "a_umlaut = [CHR 0xC3, CHR 0xA4]"

definition sharp_s :: string where
  "sharp_s = [CHR 0xC3, CHR 0x9F]"

definition COMMON_MAPPINGS :: "(string \<times> string list) list" where
  "COMMON_MAPPINGS =
     [(''m'' @ a_umlaut @ ''nnlich'', [''geschlecht'']),
      (''weiblich'', [''geschlecht'']),
      (''divers'', [''geschlecht'']),
      (''ledig'', [''familienstand'']),
      (''einzugsdatum'', [''tag des einzugs'']),
      (''postleitzahl'', [''plz'', ''postleitzahl'']),
      (''stra'' @ sharp_s @ ''e'', [''strasse'', ''stra'' @ sharp_s @ ''e''])]"

text \<open>
  The test of the second pass on one widget: the lower-cased key is contained in the
  lower-cased name or label, or one of its fragments of \<^verbatim>\<open>COMMON_MAPPINGS\<close> is.
\<close>

definition found_match :: "lib \<Rightarrow> string \<Rightarrow> widget \<Rightarrow> bool" where
  "found_match l k_low w =
     (let name_low = str_lower l (field_name w);
          label_low = str_lower l (case field_label w of None \<Rightarrow> [] | Some lab \<Rightarrow> lab)
      in if contains name_low k_low \<or> contains label_low k_low then True
         else (case map_of COMMON_MAPPINGS k_low of
                 None \<Rightarrow> False
               | Some frags \<Rightarrow>
                   list_ex (\<lambda>frag. contains name_low frag \<or> contains label_low frag) frags))"

text \<open>The widget with the value that the second pass assigns to it (lines 203 to 208).\<close>

definition coerce_fuzzy :: "lib \<Rightarrow> widget \<Rightarrow> string \<Rightarrow> widget" where
  "coerce_fuzzy l w val =
     (let name_low = str_lower l (field_name w)
      in if field_type w = PDF_WIDGET_TYPE_CHECKBOX
         then let is_checked =
                    (str_lower l val \<in> set [''yes'', ''true'', ''x'']
                     \<or> contains name_low (str_lower l val))
              in w\<lparr>field_value := Some (if is_checked then ''Yes'' else ''Off'')\<rparr>
         else w\<lparr>field_value := Some val\<rparr>)"

text \<open>
  The body of the outer loop of the second pass, for one key: the first widget that
  passes the test is filled and the inner loop ends.
\<close>

definition fill_fuzzy :: "lib \<Rightarrow> fill_io \<Rightarrow> (string \<times> string) list \<Rightarrow> string \<Rightarrow> fill_state \<Rightarrow> string + fill_state" where
  "fill_fuzzy l io field_data key st =
     (let k_low = str_lower l key
      in case find (\<lambda>(i, w). found_match l k_low w) (enumerate 0 (widgets st)) of
           None \<Rightarrow> Inr st
         | Some (i, w) \<Rightarrow>
            (case map_of field_data key of
               None \<Rightarrow> Inr st
             | Some val \<Rightarrow> update_and_record io key i (coerce_fuzzy l w val) st))"

text \<open>A loop over keys that ends at the first exception.\<close>

fun run_keys :: "(string \<Rightarrow> fill_state \<Rightarrow> string + fill_state) \<Rightarrow> string list \<Rightarrow> fill_state \<Rightarrow> string + fill_state" where
  "run_keys step [] st = Inr st"
| "run_keys step (key # keys) st =
     (case step key st of
        Inl msg \<Rightarrow> Inl msg
      | Inr st' \<Rightarrow> run_keys step keys st')"

text \<open>
  Both passes. The keys are taken in the order in which the set iterates; the second
  pass runs over the keys the first left, when there are any.
\<close>

definition match_and_fill :: "lib \<Rightarrow> fill_io \<Rightarrow> widget list list \<Rightarrow> (string \<times> string) list \<Rightarrow> string + fill_state" where
  "match_and_fill l io pages field_data =
     (let ws = index_widgets pages;
          wmap = widget_map ws;
          st0 = \<lparr>widgets = ws, filled_count = 0,
                 unmatched_keys = set_order io (map fst field_data),
                 matched_fields_info = []\<rparr>
      in case run_keys (fill_exact l io field_data wmap) (unmatched_keys st0) st0 of
           Inl msg \<Rightarrow> Inl msg
         | Inr st1 \<Rightarrow>
             if unmatched_keys st1 \<noteq> []
             then run_keys (fill_fuzzy l io field_data) (unmatched_keys st1) st1
             else Inr st1)"

subsection \<open>perform_form_filling_logic\<close>

text \<open>The dict returned when the ledger holds the request: the short circuit.\<close>

definition already_completed :: "lib \<Rightarrow> string \<Rightarrow> string \<Rightarrow> (string \<times> json) list" where
  "already_completed l last_path last_file_id =
     (let filename = path_name l last_path;
          instructions = ''The task is ALREADY finished. '' @
            (if IS_REMOTE l
             then ''Access the previous result via '' @ apos @ ''berlin://files/sync/'' @ last_file_id
                  @ apos @ '' or '' @ apos @ ''berlin://forms/'' @ filename @ apos @ ''. ''
             else ''Document is already at '' @ last_path @ ''.'')
      in [(''success'', JBool True),
          (''status'', JStr ''ALREADY_COMPLETED''),
          (''message'', JStr ''Form was already filled. Skipping re-execution to prevent tool loop.''),
          (''saved_path'', JStr last_path),
          (''filename'', JStr filename),
          (''file_id'', JStr last_file_id),
          (''instructions'', JStr (instructions @ '' DO NOT run this tool again.'')),
          (''sync_resource'',
             if IS_REMOTE l then JStr (''berlin://files/sync/'' @ last_file_id) else JNull)])"

definition no_field_data :: "(string \<times> json) list" where
  "no_field_data = [(''success'', JBool False), (''error'', JStr ''No field data provided.'')]"

text \<open>The dict of the \<^verbatim>\<open>except\<close> clause of the pipeline.\<close>

definition internal_error :: "string \<Rightarrow> (string \<times> json) list" where
  "internal_error msg =
     [(''success'', JBool False),
      (''error'', JStr (''Internal error during form filling: '' @ msg))]"

text \<open>The name of the output file: a default from the clock, and one \<^verbatim>\<open>.pdf\<close>.\<close>

definition output_name :: "lib \<Rightarrow> fill_io \<Rightarrow> string option \<Rightarrow> string" where
  "output_name l io output_filename =
     (let n = (case output_filename of
                 None \<Rightarrow> ''filled_'' @ dt_strftime_hms l (now_filename io) @ ''.pdf''
               | Some s \<Rightarrow>
                   if s = [] then ''filled_'' @ dt_strftime_hms l (now_filename io) @ ''.pdf''
                   else s)
      in if endswith n ''.pdf'' then n else n @ ''.pdf'')"

definition telemetry_of :: "fill_io \<Rightarrow> bool \<Rightarrow> json" where
  "telemetry_of io cache_hit =
     JDict ((if cache_hit then [(''cache_hit'', JBool True), (''download_ms'', JInt 0)]
             else [(''download_ms'', elapsed_ms io ''download_ms'')]) @
            [(''open_ms'', elapsed_ms io ''open_ms''),
             (''index_ms'', elapsed_ms io ''index_ms''),
             (''match_fill_ms'', elapsed_ms io ''match_fill_ms''),
             (''save_ms'', elapsed_ms io ''save_ms''),
             (''total_ms'', elapsed_ms io ''total_ms'')])"

text \<open>The dict returned at the end of the pipeline.\<close>

definition completed :: "lib \<Rightarrow> fill_io \<Rightarrow> bool \<Rightarrow> string \<Rightarrow> string \<Rightarrow> string \<Rightarrow> fill_state \<Rightarrow> (string \<times> json) list" where
  "completed l io cache_hit output_filename saved_path file_id st =
     (let sync_resource = ''berlin://files/sync/'' @ file_id;
          instructions =
            (if IS_REMOTE l
             then '' REMOTE SERVER DETECTED!'' @ newline @ newline
                  @ ''1. Retrieve your file using logic: '' @ apos @ ''read_resource('' @ dquote
                  @ sync_resource @ dquote @ '')'' @ apos @ '' or '' @ apos
                  @ ''download_filled_form(filename='' @ dquote @ output_filename @ dquote @ '')''
                  @ apos @ ''.'' @ newline
                  @ ''2. IMPORTANT: After verifying the file, call '' @ apos
                  @ ''delete_filled_form(filename='' @ dquote @ output_filename @ dquote @ '')''
                  @ apos @ '' to wipe sensitive data from the remote server.''
             else '' LOCAL SERVER DETECTED!'' @ newline @ newline
                  @ ''File saved to: '' @ saved_path @ newline
                  @ '' Run '' @ apos @ ''open_file_locally(file_path='' @ dquote @ saved_path
                  @ dquote @ '')'' @ apos @ '' to open it now.'')
      in [(''success'', JBool (filled_count st > 0)),
          (''status'', JStr ''COMPLETED''),
          (''message'', JStr
             (if filled_count st > 0
              then ''Form filling process finished. '' @ str_nat (filled_count st)
                   @ '' fields matched and filled.''
              else ''Form processed but no fields were matched.'')),
          (''filename'', JStr output_filename),
          (''saved_path'', JStr saved_path),
          (''file_id'', JStr file_id),
          (''field_mappings'', JDict (map (\<lambda>(k, n). (k, JStr n)) (matched_fields_info st))),
          (''is_remote'', JBool (IS_REMOTE l)),
          (''telemetry'', telemetry_of io cache_hit),
          (''unmatched_fields'', JList (map JStr (unmatched_keys st))),
          (''instructions'', JStr instructions),
          (''sync_resource'', if IS_REMOTE l then JStr sync_resource else JNull)])"

text \<open>
  The start of the \<^verbatim>\<open>try\<close> block: the form is taken from the forms cache, or
  downloaded and written there. The result is the bytes of the form, the state, and
  whether the cache held it; \<open>Inl\<close> is the message of an exception.
\<close>

definition acquire_document :: "lib \<Rightarrow> fill_io \<Rightarrow> server \<Rightarrow> string \<Rightarrow> string + (string \<times> server \<times> bool)" where
  "acquire_document l io s form_url =
     (let input_path = forms_cache_file l (hexdigest_md5 l form_url @ ''.pdf'')
      in case files s input_path of
           Some content \<Rightarrow> Inr (content, s, True)
         | None \<Rightarrow>
            (case http_get io of
               Inl msg \<Rightarrow> Inl msg
             | Inr content \<Rightarrow>
                 Inr (content, s\<lparr>files := (files s)(input_path \<mapsto> content)\<rparr>, False)))"

text \<open>
  The \<^verbatim>\<open>try\<close> block. When an exception is caught (of the download, of
  \<^verbatim>\<open>fitz.open\<close>, of a \<^verbatim>\<open>w.update()\<close> or of \<^verbatim>\<open>doc.save\<close>), the
  state is the one reached: a downloaded form stays in the forms cache, and no filled
  form, manifest entry or ledger record was written. Writing a local file that was just
  opened, and \<^verbatim>\<open>stat\<close> on the file just saved, are taken to succeed.
\<close>

definition fill_pipeline ::
  "lib \<Rightarrow> fill_io \<Rightarrow> server \<Rightarrow> string \<Rightarrow> string \<Rightarrow> (string \<times> string) list \<Rightarrow> string option
     \<Rightarrow> (string \<times> json) list \<times> server" where
  "fill_pipeline l io s key form_url field_data output_filename =
     (case acquire_document l io s form_url of
        Inl msg \<Rightarrow> (internal_error msg, s)
      | Inr (content, s1, cache_hit) \<Rightarrow>
         (let out = output_name l io output_filename;
              final_output_path = filled_forms_file l out
          in case fitz_open l content of
               Inl msg \<Rightarrow> (internal_error msg, s1)
             | Inr pages \<Rightarrow>
                (case match_and_fill l io pages field_data of
                   Inl msg \<Rightarrow> (internal_error msg, s1)
                 | Inr st \<Rightarrow>
                   (case fitz_save l content (widgets st) (IS_REMOTE l) (IS_REMOTE l) of
                      Inl msg \<Rightarrow> (internal_error msg, s1)
                    | Inr saved \<Rightarrow>
                       (let file_size = length saved;
                            file_id = take 12 (hexdigest_md5 l
                                         (out @ '':'' @ dt_isoformat l (total_start io)));
                            s2 = s1\<lparr>files := (files s1)(final_output_path \<mapsto> saved),
                                    manifest := register_file l (now_register io) (manifest s1)
                                                  file_id final_output_path file_size,
                                    protector := save (dt_isoformat l) (ledger_write io)
                                                  (now_save io) (protector s1) key
                                                  final_output_path file_id\<rparr>
                        in (completed l io cache_hit out final_output_path file_id st, s2))))))"

text \<open>
  \<^verbatim>\<open>perform_form_filling_logic\<close>: the ledger is looked up first, then an empty
  \<^verbatim>\<open>field_data\<close> is refused, then the pipeline runs. \<^verbatim>\<open>flatten\<close> is not
  used by the source.
\<close>

definition perform_form_filling_logic ::
  "lib \<Rightarrow> fill_io \<Rightarrow> server \<Rightarrow> string \<Rightarrow> (string \<times> string) list \<Rightarrow> string option \<Rightarrow> bool \<Rightarrow> bool
     \<Rightarrow> (string \<times> json) list \<times> server" where
  "perform_form_filling_logic l io s form_url field_data output_filename flatten force_recompute =
     (let key = request_key l form_url field_data;
          lookup = check (protector s) key
      in case (if force_recompute then None else lookup) of
           Some (last_path, last_file_id) \<Rightarrow> (already_completed l last_path last_file_id, s)
         | None \<Rightarrow>
             if field_data = [] then (no_field_data, s)
             else fill_pipeline l io s key form_url field_data output_filename)"

subsection \<open>download_filled_form_logic\<close>

text \<open>
  The preview of the field values: every widget with a value that is not empty, by
  name; an exception of PyMuPDF is passed over and leaves the preview empty.
\<close>

definition field_preview :: "lib \<Rightarrow> string \<Rightarrow> (string \<times> json) list" where
  "field_preview l content =
     (case fitz_open l content of
        Inl msg \<Rightarrow> []
      | Inr pages \<Rightarrow>
          fold (\<lambda>w summary.
                  case field_value w of
                    None \<Rightarrow> summary
                  | Some v \<Rightarrow> if v \<noteq> [] then AList.update (field_name w) (JStr v) summary
                              else summary)
               (concat pages) [])"

definition SAFE_THRESHOLD :: nat where
  "SAFE_THRESHOLD = 200 * 1024"

text \<open>
  \<^verbatim>\<open>download_filled_form_logic\<close>. The files of the filled forms are regular
  files that can be read, so the \<^verbatim>\<open>except\<close> clause is not reached.
\<close>

definition download_filled_form_logic ::
  "lib \<Rightarrow> server \<Rightarrow> string \<Rightarrow> bool option \<Rightarrow> bool \<Rightarrow> bool \<Rightarrow> (string \<times> json) list \<times> server" where
  "download_filled_form_logic l s filename delete_after_read only_preview ignore_size_limit =
     (let delete_after_read1 = (case delete_after_read of None \<Rightarrow> IS_CLOUD l | Some b \<Rightarrow> b);
          delete_after_read2 = (if only_preview then False else delete_after_read1);
          safe_filename = path_name l filename;
          file_path = filled_forms_file l safe_filename
      in case files s file_path of
           None \<Rightarrow>
             ([(''success'', JBool False),
               (''error'', JStr (''File '' @ apos @ filename @ apos @ '' not found on server.''))], s)
         | Some file_bytes \<Rightarrow>
            (let file_size = length file_bytes
             in if \<not> IS_CLOUD l \<and> \<not> IS_REMOTE l
                then ([(''success'', JBool True),
                       (''filename'', JStr safe_filename),
                       (''size_bytes'', JInt (int file_size)),
                       (''saved_path'', JStr file_path),
                       (''message'', JStr (''File '' @ apos @ safe_filename @ apos
                                           @ '' is available on your local system.'')),
                       (''instructions'', JStr (''Use '' @ apos @ ''open_file_locally(file_path=''
                                           @ dquote @ file_path @ dquote @ '')'' @ apos
                                           @ '' to view it.''))], s)
                else
                  (let summary = field_preview l file_bytes;
                       is_too_large = file_size > SAFE_THRESHOLD
                   in if is_too_large \<and> \<not> ignore_size_limit \<and> \<not> only_preview
                      then ([(''success'', JBool True),
                             (''filename'', JStr safe_filename),
                             (''size_bytes'', JInt (int file_size)),
                             (''field_preview'', JDict summary),
                             (''warning'', JStr ''FILE READY FOR DOWNLOAD''),
                             (''message'', JStr (''File '' @ apos @ safe_filename @ apos
                                                 @ '' is ready for retrieval.'')),
                             (''instructions'', JStr (''Use resource '' @ apos @ ''berlin://forms/''
                                                 @ safe_filename @ apos))], s)
                      else
                        (let encoded = b64encode l file_bytes;
                             s' = (if delete_after_read2 then s\<lparr>files := (files s)(file_path := None)\<rparr>
                                   else s);
                             response = [(''success'', JBool True),
                                         (''filename'', JStr safe_filename),
                                         (''field_preview'', JDict summary),
                                         (''size_bytes'', JInt (int file_size)),
                                         (''message'', JStr (''Successfully retrieved '' @ apos
                                                             @ safe_filename @ apos @ ''.''))]
                         in if only_preview
                            then (response @ [(''instructions'', JStr ''Preview only.'')], s')
                            else (response @
                                  [(''content_base64'', JStr encoded),
                                   (''instructions'',
                                      JStr (''Decode '' @ apos @ ''content_base64'' @ apos
                                            @ '' and save as .pdf.''))], s')))))"

section \<open>tools.py: delete_filled_form\<close>

text \<open>
  \<^verbatim>\<open>delete_filled_form\<close>: the file of that name among the filled forms is
  unlinked when it exists.
\<close>

definition delete_filled_form :: "lib \<Rightarrow> server \<Rightarrow> string \<Rightarrow> (string \<times> json) list \<times> server" where
  "delete_filled_form l s filename =
     (let p = filled_forms_file l (path_name l filename)
      in if files s p \<noteq> None
         then ([(''success'', JBool True), (''message'', JStr ''Deleted.'')],
               s\<lparr>files := (files s)(p := None)\<rparr>)
         else ([(''success'', JBool False), (''error'', JStr ''Not found.'')], s))"

section \<open>A server for the examples\<close>

text \<open>
  Stand-ins for the library: lower-casing of ASCII letters, the text after the last
  slash as the name of a path, a digest that is the text itself, a clock text that is
  constant, and a PDF engine whose documents are their one page of widgets.
\<close>

definition ascii_lower :: "string \<Rightarrow> string" where
  "ascii_lower s =
     map (\<lambda>c. case map_of (zip ''ABCDEFGHIJKLMNOPQRSTUVWXYZ'' ''abcdefghijklmnopqrstuvwxyz'') c of
                 None \<Rightarrow> c | Some c' \<Rightarrow> c') s"

definition last_component :: "string \<Rightarrow> string" where
  "last_component p = rev (takeWhile (\<lambda>c. c \<noteq> CHR ''/'') (rev p))"

definition demo_page :: "widget list" where
  "demo_page =
     [\<lparr>field_name = ''Name'', field_label = None, field_type = 7, field_value = None\<rparr>,
      \<lparr>field_name = ''agree_box'', field_label = Some ''I agree'',
       field_type = PDF_WIDGET_TYPE_CHECKBOX, field_value = None\<rparr>]"

definition demo_form :: "widget list list" where
  "demo_form = [demo_page]"

definition demo_lib :: "bool \<Rightarrow> lib" where
  "demo_lib remote =
     \<lparr>hexdigest_md5 = (\<lambda>s. s),
      dumps_str = (\<lambda>s. dquote @ s @ dquote),
      str_lower = ascii_lower,
      path_name = last_component,
      dt_isoformat = (\<lambda>t. ''1970-01-01T00:00:00''),
      dt_strftime_hms = (\<lambda>t. ''000000''),
      b64encode = (\<lambda>b. ''base64:'' @ b),
      forms_cache_file = (\<lambda>n. ''/data/.cache/forms/'' @ n),
      filled_forms_file = (\<lambda>n. ''/data/filled_forms/'' @ n),
      remote_api_url = ''https://berlin-services.fastmcp.app/mcp'',
      fitz_open = (\<lambda>b. if b = ''%PDF form'' \<or> b = ''%PDF filled'' then Inr demo_form
                         else Inl ''cannot open broken document''),
      fitz_save = (\<lambda>b ws appearance deflate. Inr ''%PDF filled''),
      IS_REMOTE = remote,
      IS_CLOUD = remote\<rparr>"

definition demo_io :: fill_io where
  "demo_io =
     \<lparr>http_get = Inr ''%PDF form'',
      total_start = 0, now_filename = 0, now_register = 0, now_save = 0,
      ledger_write = WriteOk,
      set_order = (\<lambda>keys. keys),
      elapsed_ms = (\<lambda>label. JFloat 1),
      update_raises = (\<lambda>i w. None)\<rparr>"

definition demo_server :: server where
  "demo_server =
     \<lparr>protector = \<lparr>hashes = [], dedupe_file = NoLedger\<rparr>,
      files = Map.empty,
      manifest = []\<rparr>"

text \<open>A remote server that holds one filled form of the given size.\<close>

definition server_with_form :: "nat \<Rightarrow> server" where
  "server_with_form n =
     demo_server\<lparr>files := [''/data/filled_forms/a.pdf'' \<mapsto> replicate n (CHR ''x'')]\<rparr>"

section \<open>Names used to state the properties\<close>

text \<open>
  The path under which a run of the pipeline saves the filled form, and the file id it
  derives from the output name and the start time.
\<close>

definition artifact_path :: "lib \<Rightarrow> fill_io \<Rightarrow> string option \<Rightarrow> string" where
  "artifact_path l io output_filename = filled_forms_file l (output_name l io output_filename)"

definition artifact_id :: "lib \<Rightarrow> fill_io \<Rightarrow> string option \<Rightarrow> string" where
  "artifact_id l io output_filename =
     take 12 (hexdigest_md5 l (output_name l io output_filename @ '':''
                               @ dt_isoformat l (total_start io)))"

text \<open>Another call's surroundings: the download fails and the clock has moved on.\<close>

definition demo_io_later :: fill_io where
  "demo_io_later =
     \<lparr>http_get = Inl ''connection refused'',
      total_start = 5000000, now_filename = 5000000, now_register = 5000000, now_save = 5000000,
      ledger_write = WriteOk,
      set_order = (\<lambda>keys. rev keys),
      elapsed_ms = (\<lambda>label. JFloat 2),
      update_raises = (\<lambda>i w. None)\<rparr>"

text \<open>
  Surroundings in which every \<^verbatim>\<open>w.update()\<close> raises, as PyMuPDF does for a
  widget whose page is no longer bound.
\<close>

definition demo_io_unbound :: fill_io where
  "demo_io_unbound = demo_io\<lparr>update_raises := (\<lambda>i w. Some ''Annot is not bound to a page'')\<rparr>"

text \<open>The matcher's state before the first pass on the form of the examples.\<close>

definition demo_fill_state :: "string list \<Rightarrow> fill_state" where
  "demo_fill_state keys =
     \<lparr>widgets = index_widgets demo_form, filled_count = 0, unmatched_keys = keys,
      matched_fields_info = []\<rparr>"

text \<open>
  What the two passes keep of the widgets \<open>ws\<close> they started from: their number and
  their types, and for a checkbox a value that is the one it had, \<open>Yes\<close> or \<open>Off\<close>.
\<close>

definition checkboxes_binary :: "widget list \<Rightarrow> fill_state \<Rightarrow> bool" where
  "checkboxes_binary ws st =
     (length (widgets st) = length ws \<and>
      (\<forall>j < length ws.
         field_type (widgets st ! j) = field_type (ws ! j) \<and>
         (field_type (ws ! j) = PDF_WIDGET_TYPE_CHECKBOX \<longrightarrow>
            field_value (widgets st ! j) = field_value (ws ! j)
            \<or> field_value (widgets st ! j) = Some ''Yes''
            \<or> field_value (widgets st ! j) = Some ''Off'')))"

section \<open>Properties of the cache\<close>

lemma is_valid_naive:
  "is_valid ttl_s now (Some (Naive t)) = Inr (total_seconds (now - t) < real_of_int ttl_s)"
  by simp

lemma total_seconds_expired:
  "\<not> total_seconds ((ttl_s + 1) * 1000000) < real_of_int ttl_s"
  by (simp add: total_seconds_def)








text \<open>The invariant holds at start-up without a cache file and every operation keeps it.\<close>

lemma new_cache_manager_inv:
  "file = NoFile \<or> file = Corrupt \<Longrightarrow> cache_inv (new_cache_manager file ttl_s)"
  by (auto simp: cache_inv_def new_cache_manager_def)


lemma clear_inv: "cache_inv (clear c)"
  by (simp add: cache_inv_def clear_def)



text \<open>
  C7. The validity test of a stored time is \<open>now - storedAt < ttl\<close>, and no
  timestamp is not valid. A record of age \<open>ttl\<close> plus one second is a miss of the
  memory tier and of the disk tier. A disk record without a timestamp, or with one that
  is not a string or does not parse, is a miss too: \<^verbatim>\<open>get_disk\<close> returns
  \<^verbatim>\<open>(None, False)\<close> and raises nothing.
\<close>

theorem C7_ttl_validity:
  "is_valid ttl_s now (Some (Naive t)) = Inr (total_seconds (now - t) < real_of_int ttl_s)
   \<and> is_valid ttl_s now None = Inr False
   \<and> (memory_timestamp cm = Some (Naive (now - (ttl cm + 1) * 1000000))
        \<longrightarrow> get_memory cm now = Inr (JNull, False))
   \<and> (cache_file cd = Parsed (JDict kvs) \<and> map_of kvs ''_timestamp'' = Some (JStr s)
        \<and> parse s = Some (Naive (now - (ttl cd + 1) * 1000000))
        \<longrightarrow> get_disk parse cd now = (JNull, False))
   \<and> (cache_file cx = Parsed (JDict kvx) \<and> map_of kvx ''_timestamp'' = None \<and> parse [] = None
        \<longrightarrow> get_disk parse cx now = (JNull, False))
   \<and> (cache_file cu = Parsed (JDict kvu) \<and> map_of kvu ''_timestamp'' = Some v
        \<and> (\<forall>u. v = JStr u \<longrightarrow> parse u = None)
        \<longrightarrow> get_disk parse cu now = (JNull, False))"
proof -
  have a: "is_valid ttl_s now (Some (Naive t)) = Inr (total_seconds (now - t) < real_of_int ttl_s)"
    by simp
  have b: "is_valid ttl_s now None = Inr False"
    by simp
  have c: "get_memory cm now = Inr (JNull, False)"
    if "memory_timestamp cm = Some (Naive (now - (ttl cm + 1) * 1000000))"
    using that total_seconds_expired [of "ttl cm"] by (simp add: get_memory_def)
  have d: "get_disk parse cd now = (JNull, False)"
    if "cache_file cd = Parsed (JDict kvs)" "map_of kvs ''_timestamp'' = Some (JStr s)"
       "parse s = Some (Naive (now - (ttl cd + 1) * 1000000))"
    using that total_seconds_expired [of "ttl cd"] by (simp add: get_disk_def read_cached_def)
  have e: "get_disk parse cx now = (JNull, False)"
    if "cache_file cx = Parsed (JDict kvx)" "map_of kvx ''_timestamp'' = None" "parse [] = None"
    using that by (simp add: get_disk_def read_cached_def)
  have f: "get_disk parse cu now = (JNull, False)"
    if "cache_file cu = Parsed (JDict kvu)" "map_of kvu ''_timestamp'' = Some v"
       "\<forall>u. v = JStr u \<longrightarrow> parse u = None"
    using that by (cases v) (simp_all add: get_disk_def read_cached_def)
  from a b c d e f show ?thesis by blast
qed

text \<open>
  With \<open>ttl = 3600\<close>: a record stored at time 0 is valid at 3599.999999 s and
  invalid at 3600 s; read at 3601 s it is a miss of both tiers; disk records without a
  timestamp or with the timestamp \<open>yesterday\<close> are misses.
\<close>

theorem C7_ttl_validity_witness:
  "is_valid 3600 3599999999 (Some (Naive 0)) = Inr True
   \<and> is_valid 3600 3600000000 (Some (Naive 0)) = Inr False
   \<and> get_memory (demo_cache\<lparr>memory_timestamp := Some (Naive 0)\<rparr>) 3601000000 = Inr (JNull, False)
   \<and> get_disk demo_parse demo_cache 3601000000 = (JNull, False)
   \<and> get_disk demo_parse
        (new_cache_manager (Parsed (JDict [(''data'', demo_snapshot)])) 3600) 60000000
        = (JNull, False)
   \<and> get_disk demo_parse
        (new_cache_manager
           (Parsed (JDict [(''data'', demo_snapshot), (''_timestamp'', JStr ''yesterday'')])) 3600)
        60000000
        = (JNull, False)"
proof -
  let ?cm = "demo_cache\<lparr>memory_timestamp := Some (Naive 0)\<rparr>"
  let ?kvs = "[(''data'', demo_snapshot), (''_timestamp'', JStr ''1970-01-01T00:00:00'')]"
  let ?kvx = "[(''data'', demo_snapshot)]"
  let ?kvu = "[(''data'', demo_snapshot), (''_timestamp'', JStr ''yesterday'')]"
  let ?cx = "new_cache_manager (Parsed (JDict ?kvx)) 3600"
  let ?cu = "new_cache_manager (Parsed (JDict ?kvu)) 3600"
  have m: "memory_timestamp ?cm = Some (Naive (3601000000 - (ttl ?cm + 1) * 1000000))"
    by (simp add: demo_cache_def new_cache_manager_def CACHE_DURATION_SECONDS_def)
  have d: "cache_file demo_cache = Parsed (JDict ?kvs) \<and>
      map_of ?kvs ''_timestamp'' = Some (JStr ''1970-01-01T00:00:00'') \<and>
      demo_parse ''1970-01-01T00:00:00''
        = Some (Naive (3601000000 - (ttl demo_cache + 1) * 1000000))"
    by (simp add: demo_cache_def new_cache_manager_def CACHE_DURATION_SECONDS_def demo_parse_def)
  have x: "cache_file ?cx = Parsed (JDict ?kvx) \<and> map_of ?kvx ''_timestamp'' = None \<and>
      demo_parse [] = None"
    by (simp add: new_cache_manager_def demo_parse_def)
  have u: "cache_file ?cu = Parsed (JDict ?kvu) \<and>
      map_of ?kvu ''_timestamp'' = Some (JStr ''yesterday'') \<and>
      (\<forall>u. JStr ''yesterday'' = JStr u \<longrightarrow> demo_parse u = None)"
    by (simp add: new_cache_manager_def demo_parse_def)
  have v: "total_seconds (3599999999 - 0) < real_of_int 3600"
       "\<not> total_seconds (3600000000 - 0) < real_of_int 3600"
    by (simp_all add: total_seconds_def)
  show ?thesis
    using C7_ttl_validity [where ttl_s = 3600 and now = 3599999999 and t = 0]
      C7_ttl_validity [where ttl_s = 3600 and now = 3600000000 and t = 0]
      C7_ttl_validity [where now = 3601000000 and cm = ?cm and cd = demo_cache and kvs = ?kvs
        and s = "''1970-01-01T00:00:00''" and parse = demo_parse]
      C7_ttl_validity [where now = 60000000 and cx = ?cx and kvx = ?kvx and cu = ?cu
        and kvu = ?kvu and v = "JStr ''yesterday''" and parse = demo_parse]
      m d x u v
    by simp
qed

section \<open>Properties of the ledger\<close>

lemma keep_recent_subset:
  "keep_recent parse now data = Inr kept \<Longrightarrow> set kept \<subseteq> set data"
proof (induction data arbitrary: kept)
  case Nil
  then show ?case by simp
next
  case (Cons a data)
  obtain k v where a: "a = (k, v)" by (cases a)
  from Cons.prems Cons.IH show ?case
    unfolding a by (auto split: sum.splits option.splits if_splits)
qed

lemma keep_recent_young:
  "keep_recent parse now data = Inr kept \<Longrightarrow> (k, ts, path, fid) \<in> set kept \<Longrightarrow>
     \<exists>t. parse ts = Some (Naive t) \<and> total_seconds (now - t) < 86400"
proof (induction data arbitrary: kept)
  case Nil
  then show ?case by simp
next
  case (Cons a data)
  obtain k' v' where a: "a = (k', v')" by (cases a)
  from Cons.prems Cons.IH show ?case
    unfolding a
    by (auto split: sum.splits option.splits if_splits py_datetime.splits
        elim!: age_seconds.elims)
qed

lemma keep_recent_total:
  "written_by_save parse data \<Longrightarrow> \<exists>kept. keep_recent parse now data = Inr kept"
proof (induction data)
  case Nil
  then show ?case by simp
next
  case (Cons a data)
  obtain k v where a: "a = (k, v)" by (cases a)
  from Cons show ?case
    unfolding a written_by_save_def
    by (auto split: option.splits py_datetime.splits)
qed

lemma keep_recent_keeps:
  "keep_recent parse now data = Inr kept \<Longrightarrow> (k, ts, path, fid) \<in> set data \<Longrightarrow>
     parse ts = Some (Naive t) \<Longrightarrow> total_seconds (now - t) < 86400 \<Longrightarrow>
     (k, ts, path, fid) \<in> set kept"
proof (induction data arbitrary: kept)
  case Nil
  then show ?case by simp
next
  case (Cons a data)
  obtain k' v' where a: "a = (k', v')" by (cases a)
  from Cons.prems Cons.IH show ?case
    unfolding a
    by (auto split: sum.splits option.splits if_splits py_datetime.splits)
qed

lemma keep_recent_distinct:
  "keep_recent parse now data = Inr kept \<Longrightarrow> distinct (map fst data) \<Longrightarrow> distinct (map fst kept)"
proof (induction data arbitrary: kept)
  case Nil
  then show ?case by simp
next
  case (Cons a data)
  obtain k' v' where a: "a = (k', v')" by (cases a)
  from Cons.prems Cons.IH show ?case
    unfolding a
    by (fastforce split: sum.splits option.splits if_splits dest: keep_recent_subset)
qed

lemma load_cases:
  "load parse now lfile = [] \<or>
     (\<exists>data. lfile = Ledger data \<and> keep_recent parse now data = Inr (load parse now lfile))"
  by (auto simp: load_def split: ledger_file.splits sum.splits)

lemma load_young:
  "(k, ts, path, fid) \<in> set (load parse now lfile) \<Longrightarrow>
     \<exists>t. parse ts = Some (Naive t) \<and> total_seconds (now - t) < 86400"
  using load_cases [of parse now lfile] by (auto dest: keep_recent_young)

text \<open>What \<^verbatim>\<open>save\<close> writes is a ledger of this form, so every persisted ledger is.\<close>

lemma save_written_by_save:
  assumes roundtrip: "\<And>t. parse (isoformat t) = Some (Naive t)"
    and wf: "written_by_save parse (hashes p)"
  shows "written_by_save parse (hashes (save isoformat w now p key path file_id))"
proof -
  have "written_by_save parse (AList.update key (isoformat now, path, file_id) h)"
    if "written_by_save parse h" for h
    using that roundtrip by (induction h) (auto simp: written_by_save_def)
  with wf show ?thesis by (simp add: save_def Let_def)
qed

lemma load_written_by_save:
  "written_by_save parse (load parse now lfile)"
proof -
  have "(case parse (fst v) of Some (Naive t) \<Rightarrow> True | _ \<Rightarrow> False)"
    if "(k, v) \<in> set (load parse now lfile)" for k v
  proof -
    obtain ts path fid where v: "v = (ts, path, fid)" by (cases v)
    from load_young [of k ts path fid parse now lfile] that show ?thesis
      unfolding v by auto
  qed
  then show ?thesis by (auto simp: written_by_save_def list_all_iff)
qed

text \<open>
  C6. Constructing the \<^verbatim>\<open>LoopProtector\<close> builds its index from the records of
  the ledger file that are less than 24 hours old: every record of the index is, for
  every ledger file; a stored record that is 24 hours old or older, such as one created
  25 hours ago, is absent from the results of \<^verbatim>\<open>check\<close>; and in a ledger as
  \<^verbatim>\<open>save\<close> writes it, a record younger than 24 hours is retained, so that
  \<^verbatim>\<open>check\<close> returns its path and file id.
\<close>

theorem C6_load_eviction:
  "(\<forall>k0 ts0 path0 fid0.
      (k0, ts0, path0, fid0) \<in> set (hashes (new_loop_protector parse now lfile))
        \<longrightarrow> (\<exists>t0. parse ts0 = Some (Naive t0) \<and> total_seconds (now - t0) < 86400))
   \<and> (lfile = Ledger data \<and> distinct (map fst data) \<and> (k, ts, path, fid) \<in> set data
        \<and> parse ts = Some (Naive t) \<and> 86400 \<le> total_seconds (now - t)
       \<longrightarrow> check (new_loop_protector parse now lfile) k = None)
   \<and> (lfile = Ledger data \<and> distinct (map fst data) \<and> (k, ts, path, fid) \<in> set data
        \<and> parse ts = Some (Naive (now - 25 * 3600 * 1000000))
       \<longrightarrow> check (new_loop_protector parse now lfile) k = None)
   \<and> (lfile = Ledger data \<and> distinct (map fst data) \<and> written_by_save parse data
        \<and> (k', ts', path', fid') \<in> set data
        \<and> parse ts' = Some (Naive t') \<and> total_seconds (now - t') < 86400
       \<longrightarrow> check (new_loop_protector parse now lfile) k' = Some (path', fid'))"
proof -
  let ?p = "new_loop_protector parse now lfile"
  have h: "hashes ?p = load parse now lfile"
    by (simp add: new_loop_protector_def)
  have young: "\<exists>t0. parse ts0 = Some (Naive t0) \<and> total_seconds (now - t0) < 86400"
    if "(k0, ts0, path0, fid0) \<in> set (hashes ?p)" for k0 ts0 path0 fid0
    using that unfolding h by (rule load_young)
  have old: "check ?p k = None"
    if f: "lfile = Ledger data" and d: "distinct (map fst data)"
      and m: "(k, ts, path, fid) \<in> set data"
      and p: "parse ts = Some (Naive t)" and a: "86400 \<le> total_seconds (now - t)"
    for t
  proof (rule ccontr)
    assume "check ?p k \<noteq> None"
    then obtain v where v: "map_of (load parse now lfile) k = Some v"
      unfolding check_def h by (auto split: option.splits)
    then have in_kept: "(k, v) \<in> set (load parse now lfile)"
      by (rule map_of_SomeD)
    from load_cases [of parse now lfile] in_kept f
    have "keep_recent parse now data = Inr (load parse now lfile)" by auto
    then have "set (load parse now lfile) \<subseteq> set data" by (rule keep_recent_subset)
    with in_kept have "(k, v) \<in> set data" by blast
    with d m have "v = (ts, path, fid)" by (meson eq_key_imp_eq_value)
    with in_kept have "\<exists>t0. parse ts = Some (Naive t0) \<and> total_seconds (now - t0) < 86400"
      by (auto dest: load_young)
    with p a show False by auto
  qed
  have h25: "86400 \<le> total_seconds (now - (now - 25 * 3600 * 1000000))"
    by (simp add: total_seconds_def)
  have fresh: "check ?p k' = Some (path', fid')"
    if f: "lfile = Ledger data" and d: "distinct (map fst data)"
      and wf: "written_by_save parse data"
      and m: "(k', ts', path', fid') \<in> set data"
      and p: "parse ts' = Some (Naive t')" and a: "total_seconds (now - t') < 86400"
  proof -
    from keep_recent_total [OF wf, of now] obtain kept
      where kept: "keep_recent parse now data = Inr kept" by blast
    then have l: "load parse now lfile = kept" by (simp add: load_def f)
    from keep_recent_keeps [OF kept m p a] have "(k', ts', path', fid') \<in> set kept" .
    moreover from keep_recent_distinct [OF kept d] have "distinct (map fst kept)" .
    ultimately have "map_of kept k' = Some (ts', path', fid')" by simp
    then show ?thesis by (simp add: check_def h l)
  qed
  have c1: "\<forall>k0 ts0 path0 fid0.
      (k0, ts0, path0, fid0) \<in> set (hashes ?p)
        \<longrightarrow> (\<exists>t0. parse ts0 = Some (Naive t0) \<and> total_seconds (now - t0) < 86400)"
    using young by blast
  have c2: "lfile = Ledger data \<and> distinct (map fst data) \<and> (k, ts, path, fid) \<in> set data
        \<and> parse ts = Some (Naive t) \<and> 86400 \<le> total_seconds (now - t)
       \<longrightarrow> check ?p k = None"
    using old [where t = t] by simp
  have c3: "lfile = Ledger data \<and> distinct (map fst data) \<and> (k, ts, path, fid) \<in> set data
        \<and> parse ts = Some (Naive (now - 25 * 3600 * 1000000))
       \<longrightarrow> check ?p k = None"
    using old [where t = "now - 25 * 3600 * 1000000"] h25 by simp
  have c4: "lfile = Ledger data \<and> distinct (map fst data) \<and> written_by_save parse data
        \<and> (k', ts', path', fid') \<in> set data
        \<and> parse ts' = Some (Naive t') \<and> total_seconds (now - t') < 86400
       \<longrightarrow> check ?p k' = Some (path', fid')"
    using fresh by simp
  from c1 c2 c3 c4 show ?thesis by (intro conjI)
qed

text \<open>
  Read at 25 hours, the ledger of the examples loses its record stored at time 0 and
  keeps the one stored at two hours.
\<close>

theorem C6_load_eviction_witness:
  "check (new_loop_protector demo_parse2 90000000000 (Ledger demo_ledger)) ''old'' = None
   \<and> check (new_loop_protector demo_parse2 90000000000 (Ledger demo_ledger)) ''new''
       = Some (''/forms/b.pdf'', ''bbbbbbbbbbbb'')
   \<and> hashes (new_loop_protector demo_parse2 90000000000 (Ledger demo_ledger))
       = [(''new'', (''1970-01-01T02:00:00'', ''/forms/b.pdf'', ''bbbbbbbbbbbb''))]"
proof -
  have d: "distinct (map fst demo_ledger)"
    by (simp add: demo_ledger_def)
  have wf: "written_by_save demo_parse2 demo_ledger"
    by (simp add: written_by_save_def demo_ledger_def demo_parse2_def)
  have old: "(''old'', ''1970-01-01T00:00:00'', ''/forms/a.pdf'', ''aaaaaaaaaaaa'') \<in> set demo_ledger"
    and new: "(''new'', ''1970-01-01T02:00:00'', ''/forms/b.pdf'', ''bbbbbbbbbbbb'') \<in> set demo_ledger"
    by (simp_all add: demo_ledger_def)
  have p_old: "demo_parse2 ''1970-01-01T00:00:00'' = Some (Naive (90000000000 - 25 * 3600 * 1000000))"
    and p_new: "demo_parse2 ''1970-01-01T02:00:00'' = Some (Naive 7200000000)"
    by (simp_all add: demo_parse2_def)
  have a_new: "total_seconds (90000000000 - 7200000000) < 86400"
    by (simp add: total_seconds_def)
  have hs: "hashes (new_loop_protector demo_parse2 90000000000 (Ledger demo_ledger))
       = [(''new'', (''1970-01-01T02:00:00'', ''/forms/b.pdf'', ''bbbbbbbbbbbb''))]"
    by (simp add: new_loop_protector_def load_def demo_ledger_def demo_parse2_def total_seconds_def)
  show ?thesis
    using C6_load_eviction [where parse = demo_parse2 and now = 90000000000
        and lfile = "Ledger demo_ledger" and data = demo_ledger
        and k = "''old''" and ts = "''1970-01-01T00:00:00''" and path = "''/forms/a.pdf''"
        and fid = "''aaaaaaaaaaaa''"
        and k' = "''new''" and ts' = "''1970-01-01T02:00:00''" and path' = "''/forms/b.pdf''"
        and fid' = "''bbbbbbbbbbbb''" and t' = 7200000000]
      d wf old new p_old p_new a_new hs
    by simp
qed

section \<open>Properties of the request fingerprint\<close>

lemma filter_same_key:
  "distinct (map fst xs) \<Longrightarrow> k \<in> set xs \<Longrightarrow> filter (\<lambda>x. fst k = fst x) xs = [k]"
proof (induction xs)
  case Nil
  then show ?case by simp
next
  case (Cons a xs)
  show ?case
  proof (cases "k = a")
    case True
    with Cons.prems have "\<forall>x \<in> set xs. fst k \<noteq> fst x"
      by (auto simp: image_iff)
    then have "filter (\<lambda>x. fst k = fst x) xs = []"
      by (simp add: filter_empty_conv)
    with True show ?thesis by simp
  next
    case False
    with Cons.prems have k: "k \<in> set xs" and d: "distinct (map fst xs)"
      by auto
    with Cons.prems have "fst k \<noteq> fst a"
      by (auto simp: image_iff)
    with Cons.IH [OF d k] show ?thesis by simp
  qed
qed

lemma sort_key_permuted:
  assumes d1: "distinct (map fst xs)" and d2: "distinct (map fst ys)"
    and eq: "set xs = set ys"
  shows "sort_key fst xs = sort_key fst ys"
proof (rule properties_for_sort_key)
  from d1 d2 have "distinct xs" "distinct ys"
    by (auto simp: distinct_map)
  with eq have m: "mset xs = mset ys"
    by (simp add: set_eq_iff_mset_eq_distinct)
  then show "mset (sort_key fst ys) = mset xs" by simp
  show "sorted (map fst (sort_key fst ys))" by simp
  fix k
  assume "k \<in> set (sort_key fst ys)"
  then have k: "k \<in> set ys" by simp
  have "distinct (map fst (sort_key fst ys))"
    using d2 by (metis distinct_map distinct_sort set_sort)
  with k have "filter (\<lambda>x. fst k = fst x) (sort_key fst ys) = [k]"
    by (intro filter_same_key) simp_all
  moreover from k eq d1 have "filter (\<lambda>x. fst k = fst x) xs = [k]"
    by (intro filter_same_key) simp_all
  ultimately show "filter (\<lambda>x. fst k = fst x) (sort_key fst ys) = filter (\<lambda>x. fst k = fst x) xs"
    by simp
qed

text \<open>
  C2. Two field-data maps with the same items, whatever the order in which each
  enumerates its keys, give the same canonical serialization and so the same request
  fingerprint for a form URL.
\<close>

theorem C2_fingerprint_stable:
  assumes "distinct (map fst fd1)" and "distinct (map fst fd2)" and "set fd1 = set fd2"
  shows "request_key l form_url fd1 = request_key l form_url fd2"
  using sort_key_permuted [OF assms] by (simp add: request_key_def dumps_sorted_def)

text \<open>The same two items in both orders.\<close>

theorem C2_fingerprint_stable_witness:
  "distinct (map fst [(''name'', ''Ann''), (''city'', ''Berlin'')])
   \<and> distinct (map fst [(''city'', ''Berlin''), (''name'', ''Ann'')])
   \<and> set [(''name'', ''Ann''), (''city'', ''Berlin'')] = set [(''city'', ''Berlin''), (''name'', ''Ann'')]
   \<and> [(''name'', ''Ann''), (''city'', ''Berlin'')] \<noteq> [(''city'', ''Berlin''), (''name'', ''Ann'')]
   \<and> request_key (demo_lib False) ''http://f'' [(''name'', ''Ann''), (''city'', ''Berlin'')]
       = request_key (demo_lib False) ''http://f'' [(''city'', ''Berlin''), (''name'', ''Ann'')]"
proof -
  have d1: "distinct (map fst [(''name'', ''Ann''), (''city'', ''Berlin'')])"
    and d2: "distinct (map fst [(''city'', ''Berlin''), (''name'', ''Ann'')])"
    by simp_all
  have s: "set [(''name'', ''Ann''), (''city'', ''Berlin'')] = set [(''city'', ''Berlin''), (''name'', ''Ann'')]"
    by auto
  from C2_fingerprint_stable [OF d1 d2 s, of "demo_lib False" "''http://f''"] d1 d2 s
  show ?thesis by simp
qed

section \<open>Properties of the delivery and the removal of filled forms\<close>

text \<open>
  C8. In remote or cloud mode, a download of an existing filled form without
  \<^verbatim>\<open>only_preview\<close> and without \<^verbatim>\<open>ignore_size_limit\<close> returns the base64
  text of the file's bytes under \<open>content_base64\<close> when the file has at most
  \<open>200 * 1024\<close> bytes. When it has more, by one byte or by many, the result is the
  dict that names the resource \<open>berlin://forms/\<close> of the file, it has no
  \<open>content_base64\<close>, and the file stays on the server.
\<close>

theorem C8_delivery_mode:
  assumes remote: "IS_CLOUD l \<or> IS_REMOTE l"
    and exists: "files s (filled_forms_file l (path_name l filename)) = Some file_bytes"
  shows "(length file_bytes \<le> 200 * 1024 \<longrightarrow>
            map_of (fst (download_filled_form_logic l s filename delete_after_read False False))
              ''content_base64'' = Some (JStr (b64encode l file_bytes))
            \<and> map_of (fst (download_filled_form_logic l s filename delete_after_read False False))
              ''success'' = Some (JBool True))
       \<and> (length file_bytes > 200 * 1024 \<longrightarrow>
            download_filled_form_logic l s filename delete_after_read False False
              = ([(''success'', JBool True),
                  (''filename'', JStr (path_name l filename)),
                  (''size_bytes'', JInt (int (length file_bytes))),
                  (''field_preview'', JDict (field_preview l file_bytes)),
                  (''warning'', JStr ''FILE READY FOR DOWNLOAD''),
                  (''message'', JStr (''File '' @ apos @ path_name l filename @ apos
                                      @ '' is ready for retrieval.'')),
                  (''instructions'', JStr (''Use resource '' @ apos @ ''berlin://forms/''
                                      @ path_name l filename @ apos))], s)
            \<and> map_of (fst (download_filled_form_logic l s filename delete_after_read False False))
              ''content_base64'' = None)"
proof -
  have small: "map_of (fst (download_filled_form_logic l s filename delete_after_read False False))
              ''content_base64'' = Some (JStr (b64encode l file_bytes))
            \<and> map_of (fst (download_filled_form_logic l s filename delete_after_read False False))
              ''success'' = Some (JBool True)"
    if "length file_bytes \<le> 200 * 1024"
    using that remote exists
    by (auto simp: download_filled_form_logic_def Let_def SAFE_THRESHOLD_def)
  have large: "download_filled_form_logic l s filename delete_after_read False False
              = ([(''success'', JBool True),
                  (''filename'', JStr (path_name l filename)),
                  (''size_bytes'', JInt (int (length file_bytes))),
                  (''field_preview'', JDict (field_preview l file_bytes)),
                  (''warning'', JStr ''FILE READY FOR DOWNLOAD''),
                  (''message'', JStr (''File '' @ apos @ path_name l filename @ apos
                                      @ '' is ready for retrieval.'')),
                  (''instructions'', JStr (''Use resource '' @ apos @ ''berlin://forms/''
                                      @ path_name l filename @ apos))], s)"
    if "length file_bytes > 200 * 1024"
    using that remote exists
    by (auto simp: download_filled_form_logic_def Let_def SAFE_THRESHOLD_def)
  have large_none: "map_of (fst (download_filled_form_logic l s filename delete_after_read False False))
              ''content_base64'' = None"
    if "length file_bytes > 200 * 1024"
    unfolding large [OF that] by simp
  from small large large_none show ?thesis by simp
qed

text \<open>
  A form of exactly 204800 bytes comes back inline; a form of 204801 bytes does not.
\<close>

theorem C8_delivery_mode_witness:
  "map_of (fst (download_filled_form_logic (demo_lib True) (server_with_form 204800) ''a.pdf''
                  None False False)) ''content_base64''
     = Some (JStr (''base64:'' @ replicate 204800 (CHR ''x'')))
   \<and> map_of (fst (download_filled_form_logic (demo_lib True) (server_with_form 204801) ''a.pdf''
                  None False False)) ''content_base64'' = None
   \<and> map_of (fst (download_filled_form_logic (demo_lib True) (server_with_form 204801) ''a.pdf''
                  None False False)) ''instructions''
     = Some (JStr (''Use resource '' @ apos @ ''berlin://forms/a.pdf'' @ apos))"
proof -
  have r: "IS_CLOUD (demo_lib True) \<or> IS_REMOTE (demo_lib True)"
    by (simp add: demo_lib_def)
  have n: "path_name (demo_lib True) ''a.pdf'' = ''a.pdf''"
    by (simp add: demo_lib_def last_component_def)
  have e: "files (server_with_form k)
             (filled_forms_file (demo_lib True) (path_name (demo_lib True) ''a.pdf''))
           = Some (replicate k (CHR ''x''))" for k
    unfolding n by (simp add: server_with_form_def demo_lib_def)
  have b: "b64encode (demo_lib True) bs = ''base64:'' @ bs" for bs
    by (simp add: demo_lib_def)
  from C8_delivery_mode [OF r e [of 204800], of None] C8_delivery_mode [OF r e [of 204801], of None]
  show ?thesis by (simp add: n b)
qed




section \<open>Properties of the fill orchestration\<close>

lemma check_save:
  "check (save isofmt w now p key path file_id) key = Some (path, file_id)"
  by (simp add: check_def save_def Let_def update_conv')

lemma check_save_other:
  "k \<noteq> key \<Longrightarrow> check (save isofmt w now p key path file_id) k = check p k"
  by (simp add: check_def save_def Let_def update_conv')

text \<open>A request that the ledger holds is answered from the ledger, and nothing changes.\<close>

lemma short_circuit:
  assumes "check (protector s) (request_key l form_url field_data) = Some (path, file_id)"
  shows "perform_form_filling_logic l io s form_url field_data output_filename flatten False
           = (already_completed l path file_id, s)"
  using assms by (simp add: perform_form_filling_logic_def Let_def)

lemma already_completed_fields:
  "map_of (already_completed l path file_id) ''success'' = Some (JBool True)"
  "map_of (already_completed l path file_id) ''status'' = Some (JStr ''ALREADY_COMPLETED'')"
  "map_of (already_completed l path file_id) ''saved_path'' = Some (JStr path)"
  "map_of (already_completed l path file_id) ''file_id'' = Some (JStr file_id)"
  by (simp_all add: already_completed_def Let_def)

lemma completed_fields:
  "map_of (completed l io hit out path file_id st) ''success'' = Some (JBool (filled_count st > 0))"
  "map_of (completed l io hit out path file_id st) ''status'' = Some (JStr ''COMPLETED'')"
  "map_of (completed l io hit out path file_id st) ''saved_path'' = Some (JStr path)"
  "map_of (completed l io hit out path file_id st) ''file_id'' = Some (JStr file_id)"
  by (simp_all add: completed_def Let_def)

text \<open>
  The run of the pipeline to its end: no record in the ledger (or a forced run), some
  field data, the form acquired and opened, both passes run without an exception of
  \<^verbatim>\<open>w.update()\<close>, and the document saved.
\<close>

lemma pipeline_completed:
  assumes miss: "force_recompute \<or> check (protector s) (request_key l form_url field_data) = None"
    and nonempty: "field_data \<noteq> []"
    and acquired: "acquire_document l io s form_url = Inr (content, s1, cache_hit)"
    and opened: "fitz_open l content = Inr pages"
    and matched: "match_and_fill l io pages field_data = Inr st"
    and saved: "fitz_save l content (widgets st) (IS_REMOTE l) (IS_REMOTE l) = Inr saved_bytes"
  shows "perform_form_filling_logic l io s form_url field_data output_filename flatten force_recompute
    = (completed l io cache_hit (output_name l io output_filename)
         (filled_forms_file l (output_name l io output_filename))
         (take 12 (hexdigest_md5 l (output_name l io output_filename @ '':''
                                    @ dt_isoformat l (total_start io))))
         st,
       s1\<lparr>files := (files s1)(filled_forms_file l (output_name l io output_filename) \<mapsto> saved_bytes),
          manifest := register_file l (now_register io) (manifest s1)
             (take 12 (hexdigest_md5 l (output_name l io output_filename @ '':''
                                        @ dt_isoformat l (total_start io))))
             (filled_forms_file l (output_name l io output_filename)) (length saved_bytes),
          protector := save (dt_isoformat l) (ledger_write io) (now_save io) (protector s1)
             (request_key l form_url field_data)
             (filled_forms_file l (output_name l io output_filename))
             (take 12 (hexdigest_md5 l (output_name l io output_filename @ '':''
                                        @ dt_isoformat l (total_start io))))\<rparr>)"
proof -
  have "perform_form_filling_logic l io s form_url field_data output_filename flatten force_recompute
      = fill_pipeline l io s (request_key l form_url field_data) form_url field_data output_filename"
    using miss nonempty by (auto simp: perform_form_filling_logic_def Let_def)
  then show ?thesis
    using acquired opened matched saved by (simp add: fill_pipeline_def Let_def)
qed

lemma acquire_document_protector:
  "acquire_document l io s form_url = Inr (content, s1, cache_hit) \<Longrightarrow>
     protector s1 = protector s \<and> manifest s1 = manifest s"
  by (auto simp: acquire_document_def Let_def split: option.splits sum.splits)

lemma pipeline_completed_artifact:
  assumes "force_recompute \<or> check (protector s) (request_key l form_url field_data) = None"
    and "field_data \<noteq> []"
    and "acquire_document l io s form_url = Inr (content, s1, cache_hit)"
    and "fitz_open l content = Inr pages"
    and "match_and_fill l io pages field_data = Inr st"
    and "fitz_save l content (widgets st) (IS_REMOTE l) (IS_REMOTE l) = Inr saved_bytes"
  shows "perform_form_filling_logic l io s form_url field_data output_filename flatten force_recompute
    = (completed l io cache_hit (output_name l io output_filename)
         (artifact_path l io output_filename) (artifact_id l io output_filename)
         st,
       s1\<lparr>files := (files s1)(artifact_path l io output_filename \<mapsto> saved_bytes),
          manifest := register_file l (now_register io) (manifest s1)
             (artifact_id l io output_filename) (artifact_path l io output_filename)
             (length saved_bytes),
          protector := save (dt_isoformat l) (ledger_write io) (now_save io) (protector s1)
             (request_key l form_url field_data)
             (artifact_path l io output_filename) (artifact_id l io output_filename)\<rparr>)"
  unfolding artifact_path_def artifact_id_def by (rule pipeline_completed [OF assms])

lemma register_file_lookup:
  "map_of (register_file l now m file_id path n) file_id \<noteq> None"
  by (simp add: register_file_def update_conv')

text \<open>
  A call never writes a ledger record under another key than the fingerprint of its own
  request, and writes none when the field data is empty.
\<close>

lemma perform_ledger_keys:
  assumes "k \<in> fst ` set (hashes (protector (snd
      (perform_form_filling_logic l io s form_url field_data output_filename flatten force_recompute))))"
  shows "k \<in> fst ` set (hashes (protector s))
         \<or> (k = request_key l form_url field_data \<and> field_data \<noteq> [])"
proof -
  have dom: "fst ` set (AList.update a b al) = insert a (fst ` set al)" for a :: string and b :: ledger_record and al
    using dom_update [of a b al] by simp
  from assms show ?thesis
    by (auto simp: perform_form_filling_logic_def fill_pipeline_def Let_def save_def dom
        dest!: acquire_document_protector
        split: option.splits sum.splits if_splits prod.splits)
qed

text \<open>
  C5. A call with an empty field-data map leaves the server as it was: no filled form
  is saved, nothing is registered, no ledger record is written. The ledger is looked up
  before the map is tested; when it holds no record under the fingerprint of the
  request, which no call writes for an empty map, or when the run is forced, the
  result is the failure dict with the error \<open>No field data provided.\<close>
\<close>

theorem C5_empty_field_data_rejected:
  "snd (perform_form_filling_logic l io s form_url [] output_filename flatten force_recompute) = s
   \<and> (force_recompute \<or> check (protector s) (request_key l form_url []) = None \<longrightarrow>
        fst (perform_form_filling_logic l io s form_url [] output_filename flatten force_recompute)
          = [(''success'', JBool False), (''error'', JStr ''No field data provided.'')])"
  by (auto simp: perform_form_filling_logic_def Let_def no_field_data_def split: option.splits)

text \<open>On a fresh server, with and without \<^verbatim>\<open>force_recompute\<close>.\<close>

theorem C5_empty_field_data_rejected_witness:
  "check (protector demo_server) (request_key (demo_lib True) ''http://f'' []) = None
   \<and> perform_form_filling_logic (demo_lib True) demo_io demo_server ''http://f'' [] None False False
       = ([(''success'', JBool False), (''error'', JStr ''No field data provided.'')], demo_server)
   \<and> perform_form_filling_logic (demo_lib True) demo_io demo_server ''http://f'' [] None False True
       = ([(''success'', JBool False), (''error'', JStr ''No field data provided.'')], demo_server)"
proof -
  have miss: "check (protector demo_server) (request_key (demo_lib True) ''http://f'' []) = None"
    by (simp add: check_def demo_server_def)
  from C5_empty_field_data_rejected [of "demo_lib True" demo_io demo_server "''http://f''" None False False]
    C5_empty_field_data_rejected [of "demo_lib True" demo_io demo_server "''http://f''" None False True]
    miss
  show ?thesis by (simp add: prod_eq_iff)
qed

text \<open>
  C10. A run that reaches the end of the pipeline (the form acquired and opened, the
  passes run without an exception, the document saved) with no field matched returns
  \<open>success\<close> false with the status \<open>COMPLETED\<close>. The filled form is saved all the
  same, registered in the manifest and recorded in the ledger under the fingerprint of
  the request. Any later call for the same request without \<^verbatim>\<open>force_recompute\<close>,
  whatever its surroundings and output name, is therefore answered from the ledger:
  \<open>success\<close> true, status \<open>ALREADY_COMPLETED\<close>, with the path and file id of that
  artifact, and the server is left as it was.
\<close>

theorem C10_zero_match_run:
  fixes r1 :: "(string \<times> json) list \<times> server"
    and output_filename :: "string option" and flatten :: bool
  assumes miss: "force_recompute \<or> check (protector s) (request_key l form_url field_data) = None"
    and nonempty: "field_data \<noteq> []"
    and acquired: "acquire_document l io s form_url = Inr (content, s1, cache_hit)"
    and opened: "fitz_open l content = Inr pages"
    and matched: "match_and_fill l io pages field_data = Inr st"
    and zero: "filled_count st = 0"
    and saved: "fitz_save l content (widgets st) (IS_REMOTE l) (IS_REMOTE l) = Inr saved_bytes"
  defines "r1 \<equiv> perform_form_filling_logic l io s form_url field_data output_filename flatten
                  force_recompute"
  shows "map_of (fst r1) ''success'' = Some (JBool False)
       \<and> map_of (fst r1) ''status'' = Some (JStr ''COMPLETED'')
       \<and> map_of (fst r1) ''saved_path'' = Some (JStr (artifact_path l io output_filename))
       \<and> map_of (fst r1) ''file_id'' = Some (JStr (artifact_id l io output_filename))
       \<and> files (snd r1) (artifact_path l io output_filename) = Some saved_bytes
       \<and> map_of (manifest (snd r1)) (artifact_id l io output_filename) \<noteq> None
       \<and> check (protector (snd r1)) (request_key l form_url field_data)
           = Some (artifact_path l io output_filename, artifact_id l io output_filename)
       \<and> perform_form_filling_logic l io' (snd r1) form_url field_data output_filename' flatten' False
           = (already_completed l (artifact_path l io output_filename)
                (artifact_id l io output_filename), snd r1)
       \<and> map_of (already_completed l (artifact_path l io output_filename)
                   (artifact_id l io output_filename)) ''success'' = Some (JBool True)
       \<and> map_of (already_completed l (artifact_path l io output_filename)
                   (artifact_id l io output_filename)) ''status'' = Some (JStr ''ALREADY_COMPLETED'')
       \<and> map_of (already_completed l (artifact_path l io output_filename)
                   (artifact_id l io output_filename)) ''saved_path''
           = Some (JStr (artifact_path l io output_filename))
       \<and> map_of (already_completed l (artifact_path l io output_filename)
                   (artifact_id l io output_filename)) ''file_id''
           = Some (JStr (artifact_id l io output_filename))"
proof -
  note run = pipeline_completed_artifact [OF miss nonempty acquired opened matched saved,
      of output_filename flatten, folded r1_def]
  have result: "map_of (fst r1) ''success'' = Some (JBool False)"
      "map_of (fst r1) ''status'' = Some (JStr ''COMPLETED'')"
      "map_of (fst r1) ''saved_path'' = Some (JStr (artifact_path l io output_filename))"
      "map_of (fst r1) ''file_id'' = Some (JStr (artifact_id l io output_filename))"
    unfolding run using zero by (simp_all add: completed_fields)
  have artifact: "files (snd r1) (artifact_path l io output_filename) = Some saved_bytes"
    unfolding run by simp
  have registered: "map_of (manifest (snd r1)) (artifact_id l io output_filename) \<noteq> None"
    unfolding run by (simp add: register_file_lookup)
  have ledger: "check (protector (snd r1)) (request_key l form_url field_data)
      = Some (artifact_path l io output_filename, artifact_id l io output_filename)"
    unfolding run by (simp add: check_save)
  have again: "perform_form_filling_logic l io' (snd r1) form_url field_data output_filename' flatten' False
      = (already_completed l (artifact_path l io output_filename)
           (artifact_id l io output_filename), snd r1)"
    using ledger by (rule short_circuit)
  from result artifact registered ledger again show ?thesis
    by (simp add: already_completed_fields)
qed

text \<open>
  On a fresh remote server, a request whose only key \<open>zzz\<close> matches no field of the
  form: the run completes without success, and the second call, whose download would
  fail, is answered from the ledger with the artifact of the first.
\<close>

theorem C10_zero_match_run_witness:
  "map_of (fst (perform_form_filling_logic (demo_lib True) demo_io demo_server ''http://f''
                  [(''zzz'', ''Ann'')] None False False)) ''success'' = Some (JBool False)
   \<and> map_of (fst (perform_form_filling_logic (demo_lib True) demo_io demo_server ''http://f''
                  [(''zzz'', ''Ann'')] None False False)) ''status'' = Some (JStr ''COMPLETED'')
   \<and> files (snd (perform_form_filling_logic (demo_lib True) demo_io demo_server ''http://f''
                  [(''zzz'', ''Ann'')] None False False)) ''/data/filled_forms/filled_000000.pdf''
       = Some ''%PDF filled''
   \<and> perform_form_filling_logic (demo_lib True) demo_io_later
        (snd (perform_form_filling_logic (demo_lib True) demo_io demo_server ''http://f''
                [(''zzz'', ''Ann'')] None False False))
        ''http://f'' [(''zzz'', ''Ann'')] None False False
       = (already_completed (demo_lib True) ''/data/filled_forms/filled_000000.pdf'' ''filled_00000'',
          snd (perform_form_filling_logic (demo_lib True) demo_io demo_server ''http://f''
                [(''zzz'', ''Ann'')] None False False))"
proof -
  let ?l = "demo_lib True"
  let ?s1 = "demo_server\<lparr>files := (files demo_server)(''/data/.cache/forms/http://f.pdf'' \<mapsto> ''%PDF form'')\<rparr>"
  let ?st = "\<lparr>widgets = demo_page, filled_count = 0, unmatched_keys = [''zzz''],
               matched_fields_info = []\<rparr>"
  have miss: "False \<or> check (protector demo_server) (request_key ?l ''http://f'' [(''zzz'', ''Ann'')]) = None"
    by (simp add: check_def demo_server_def)
  have nonempty: "[(''zzz'', ''Ann'')] \<noteq> []"
    by simp
  have acquired: "acquire_document ?l demo_io demo_server ''http://f'' = Inr (''%PDF form'', ?s1, False)"
    by (simp add: acquire_document_def demo_lib_def demo_io_def demo_server_def)
  have opened: "fitz_open ?l ''%PDF form'' = Inr demo_form"
    by (simp add: demo_lib_def)
  have matched: "match_and_fill ?l demo_io demo_form [(''zzz'', ''Ann'')] = Inr ?st"
    by (simp add: match_and_fill_def index_widgets_def widget_map_def demo_form_def demo_page_def demo_io_def
        demo_lib_def fill_exact_def fill_fuzzy_def found_match_def COMMON_MAPPINGS_def
        ascii_lower_def a_umlaut_def sharp_s_def PDF_WIDGET_TYPE_CHECKBOX_def Let_def)
  have zero: "filled_count ?st = 0"
    by simp
  have saved: "fitz_save ?l ''%PDF form'' (widgets ?st) (IS_REMOTE ?l) (IS_REMOTE ?l) = Inr ''%PDF filled''"
    by (simp add: demo_lib_def)
  have path: "artifact_path ?l demo_io None = ''/data/filled_forms/filled_000000.pdf''"
    by (simp add: artifact_path_def output_name_def demo_lib_def endswith_def)
  have ident: "artifact_id ?l demo_io None = ''filled_00000''"
    by (simp add: artifact_id_def output_name_def demo_lib_def endswith_def)
  from C10_zero_match_run [OF miss nonempty acquired opened matched zero saved,
      of None False demo_io_later None False]
  show ?thesis
    unfolding path ident by simp
qed

text \<open>
  C1, as the code has it. For a request with some field data that the ledger does not
  hold and whose first call runs the pipeline to its end (the form acquired and opened,
  both passes run without an exception of a widget update, the document saved), the
  first call returns the status \<open>COMPLETED\<close> and records the request in
  the ledger with the time, the path and the file id of the artifact. A second call
  without \<^verbatim>\<open>force_recompute\<close>, whatever its surroundings and output name, does
  not run the pipeline again: the server is left as the first call left it, and the
  result has the status \<open>ALREADY_COMPLETED\<close> with the \<open>file_id\<close> and the
  \<open>saved_path\<close> of the first result.
\<close>

theorem C1_fill_twice:
  fixes r1 r2 :: "(string \<times> json) list \<times> server"
    and output_filename output_filename' :: "string option" and flatten flatten' :: bool
    and io' :: fill_io
  assumes miss: "check (protector s) (request_key l form_url field_data) = None"
    and nonempty: "field_data \<noteq> []"
    and acquired: "acquire_document l io s form_url = Inr (content, s1, cache_hit)"
    and opened: "fitz_open l content = Inr pages"
    and matched: "match_and_fill l io pages field_data = Inr st"
    and saved: "fitz_save l content (widgets st) (IS_REMOTE l) (IS_REMOTE l) = Inr saved_bytes"
  defines "r1 \<equiv> perform_form_filling_logic l io s form_url field_data output_filename flatten False"
    and "r2 \<equiv> perform_form_filling_logic l io' (snd r1) form_url field_data output_filename'
                  flatten' False"
  shows "map_of (fst r1) ''status'' = Some (JStr ''COMPLETED'')
       \<and> map_of (fst r1) ''file_id'' = Some (JStr (artifact_id l io output_filename))
       \<and> map_of (fst r1) ''saved_path'' = Some (JStr (artifact_path l io output_filename))
       \<and> map_of (hashes (protector (snd r1))) (request_key l form_url field_data)
           = Some (dt_isoformat l (now_save io), artifact_path l io output_filename,
                   artifact_id l io output_filename)
       \<and> files (snd r1) (artifact_path l io output_filename) = Some saved_bytes
       \<and> snd r2 = snd r1
       \<and> map_of (fst r2) ''status'' = Some (JStr ''ALREADY_COMPLETED'')
       \<and> map_of (fst r2) ''file_id'' = map_of (fst r1) ''file_id''
       \<and> map_of (fst r2) ''saved_path'' = map_of (fst r1) ''saved_path''"
proof -
  from miss have miss': "False \<or> check (protector s) (request_key l form_url field_data) = None"
    by simp
  note run = pipeline_completed_artifact [OF miss' nonempty acquired opened matched saved,
      of output_filename flatten, folded r1_def]
  have first: "map_of (fst r1) ''status'' = Some (JStr ''COMPLETED'')"
      "map_of (fst r1) ''saved_path'' = Some (JStr (artifact_path l io output_filename))"
      "map_of (fst r1) ''file_id'' = Some (JStr (artifact_id l io output_filename))"
    unfolding run by (simp_all add: completed_fields)
  have recorded: "map_of (hashes (protector (snd r1))) (request_key l form_url field_data)
      = Some (dt_isoformat l (now_save io), artifact_path l io output_filename,
              artifact_id l io output_filename)"
    unfolding run by (simp add: save_def Let_def update_conv')
  have artifact: "files (snd r1) (artifact_path l io output_filename) = Some saved_bytes"
    unfolding run by simp
  from recorded have "check (protector (snd r1)) (request_key l form_url field_data)
      = Some (artifact_path l io output_filename, artifact_id l io output_filename)"
    by (simp add: check_def)
  then have second: "r2 = (already_completed l (artifact_path l io output_filename)
                             (artifact_id l io output_filename), snd r1)"
    unfolding r2_def by (rule short_circuit)
  from first recorded artifact show ?thesis
    unfolding second by (simp add: already_completed_fields)
qed

text \<open>
  Two fields are filled on a fresh server; the second call, whose download would fail
  and which asks for another output name, returns the artifact of the first.
\<close>

theorem C1_fill_twice_witness:
  "map_of (fst (perform_form_filling_logic (demo_lib False) demo_io demo_server ''http://f''
                  [(''Name'', ''Ann''), (''agree_box'', ''X'')] (Some ''out'') False False)) ''status''
     = Some (JStr ''COMPLETED'')
   \<and> map_of (fst (perform_form_filling_logic (demo_lib False) demo_io demo_server ''http://f''
                  [(''Name'', ''Ann''), (''agree_box'', ''X'')] (Some ''out'') False False)) ''file_id''
     = Some (JStr ''out.pdf:1970'')
   \<and> map_of (fst (perform_form_filling_logic (demo_lib False) demo_io_later
          (snd (perform_form_filling_logic (demo_lib False) demo_io demo_server ''http://f''
                  [(''Name'', ''Ann''), (''agree_box'', ''X'')] (Some ''out'') False False))
          ''http://f'' [(''Name'', ''Ann''), (''agree_box'', ''X'')] None False False)) ''status''
     = Some (JStr ''ALREADY_COMPLETED'')
   \<and> map_of (fst (perform_form_filling_logic (demo_lib False) demo_io_later
          (snd (perform_form_filling_logic (demo_lib False) demo_io demo_server ''http://f''
                  [(''Name'', ''Ann''), (''agree_box'', ''X'')] (Some ''out'') False False))
          ''http://f'' [(''Name'', ''Ann''), (''agree_box'', ''X'')] None False False)) ''file_id''
     = Some (JStr ''out.pdf:1970'')
   \<and> map_of (fst (perform_form_filling_logic (demo_lib False) demo_io_later
          (snd (perform_form_filling_logic (demo_lib False) demo_io demo_server ''http://f''
                  [(''Name'', ''Ann''), (''agree_box'', ''X'')] (Some ''out'') False False))
          ''http://f'' [(''Name'', ''Ann''), (''agree_box'', ''X'')] None False False)) ''saved_path''
     = Some (JStr ''/data/filled_forms/out.pdf'')"
proof -
  let ?l = "demo_lib False"
  let ?fd = "[(''Name'', ''Ann''), (''agree_box'', ''X'')]"
  let ?s1 = "demo_server\<lparr>files := (files demo_server)(''/data/.cache/forms/http://f.pdf'' \<mapsto> ''%PDF form'')\<rparr>"
  have miss: "check (protector demo_server) (request_key ?l ''http://f'' ?fd) = None"
    by (simp add: check_def demo_server_def)
  have nonempty: "?fd \<noteq> []"
    by simp
  have acquired: "acquire_document ?l demo_io demo_server ''http://f'' = Inr (''%PDF form'', ?s1, False)"
    by (simp add: acquire_document_def demo_lib_def demo_io_def demo_server_def)
  have opened: "fitz_open ?l ''%PDF form'' = Inr demo_form"
    by (simp add: demo_lib_def)
  let ?st = "\<lparr>widgets =
                 [\<lparr>field_name = ''Name'', field_label = None, field_type = 7,
                   field_value = Some ''Ann''\<rparr>,
                  \<lparr>field_name = ''agree_box'', field_label = Some ''I agree'',
                   field_type = PDF_WIDGET_TYPE_CHECKBOX, field_value = Some ''Yes''\<rparr>],
               filled_count = 2, unmatched_keys = [],
               matched_fields_info = [(''Name'', ''Name''), (''agree_box'', ''agree_box'')]\<rparr>"
  have matched: "match_and_fill ?l demo_io demo_form ?fd = Inr ?st"
    by (simp add: match_and_fill_def index_widgets_def widget_map_def demo_form_def demo_page_def
        demo_io_def demo_lib_def fill_exact_def coerce_exact_def update_and_record_def
        record_match_def ascii_lower_def PDF_WIDGET_TYPE_CHECKBOX_def Let_def)
  have saved: "fitz_save ?l ''%PDF form'' (widgets ?st) (IS_REMOTE ?l) (IS_REMOTE ?l)
                 = Inr ''%PDF filled''"
    by (simp add: demo_lib_def)
  have path: "artifact_path ?l demo_io (Some ''out'') = ''/data/filled_forms/out.pdf''"
    by (simp add: artifact_path_def output_name_def demo_lib_def endswith_def)
  have ident: "artifact_id ?l demo_io (Some ''out'') = ''out.pdf:1970''"
    by (simp add: artifact_id_def output_name_def demo_lib_def endswith_def)
  from C1_fill_twice [OF miss nonempty acquired opened matched saved,
      of "Some ''out''" False demo_io_later None False]
  show ?thesis
    unfolding path ident by simp
qed

text \<open>
  Against C1 as the specification states it, for every pair: with an empty field-data
  map the first call records nothing in the ledger, and the second call is answered
  like the first, not with the status \<open>ALREADY_COMPLETED\<close>.
\<close>

theorem C1_empty_request_counterexample:
  "hashes (protector (snd (perform_form_filling_logic (demo_lib False) demo_io demo_server
             ''http://f'' [] None False False))) = []
   \<and> fst (perform_form_filling_logic (demo_lib False) demo_io
        (snd (perform_form_filling_logic (demo_lib False) demo_io demo_server
                ''http://f'' [] None False False))
        ''http://f'' [] None False False)
       = [(''success'', JBool False), (''error'', JStr ''No field data provided.'')]
   \<and> map_of (fst (perform_form_filling_logic (demo_lib False) demo_io
        (snd (perform_form_filling_logic (demo_lib False) demo_io demo_server
                ''http://f'' [] None False False))
        ''http://f'' [] None False False)) ''status'' \<noteq> Some (JStr ''ALREADY_COMPLETED'')"
  by (simp add: perform_form_filling_logic_def check_def demo_server_def no_field_data_def Let_def)

section \<open>Properties of the field matcher\<close>

lemma find_enumerate:
  assumes "find P (enumerate 0 xs) = Some (i, w)"
  shows "i < length xs \<and> w = xs ! i"
proof -
  from assms obtain j where j: "j < length (enumerate 0 xs)" "(i, w) = enumerate 0 xs ! j"
    unfolding find_Some_iff by blast
  then show ?thesis by (simp add: nth_enumerate_eq)
qed

lemma widget_map_in_range:
  "map_of (widget_map ws) key = Some i \<Longrightarrow> i < length ws"
proof -
  have "\<forall>i. map_of (fold (\<lambda>(i, w). AList.update (field_name w) i) ps m) key = Some i
          \<longrightarrow> (i \<in> fst ` set ps \<or> map_of m key = Some i)" for ps :: "(nat \<times> widget) list" and m
  proof (induction ps arbitrary: m)
    case Nil
    then show ?case by simp
  next
    case (Cons p ps)
    obtain j w where p: "p = (j, w)" by (cases p)
    show ?case
      using Cons [of "AList.update (field_name w) j m"]
      unfolding p by (auto simp: update_conv' split: if_splits)
  qed
  from this [of "enumerate 0 ws" "[]"] show "map_of (widget_map ws) key = Some i \<Longrightarrow> i < length ws"
    by (auto simp: widget_map_def in_set_enumerate_eq)
qed

text \<open>
  C4, as the code has it. A checkbox that a pass matches is assigned one of the two
  values \<open>Yes\<close> and \<open>Off\<close>, never none, before \<^verbatim>\<open>w.update()\<close> is called. In
  the first pass it is \<open>Yes\<close> exactly when the lower-cased value is one of \<open>yes\<close>,
  \<open>true\<close>, \<open>1\<close>, \<open>on\<close>, \<open>x\<close>. In the second pass it is \<open>Yes\<close> when the
  lower-cased value is one of \<open>yes\<close>, \<open>true\<close>, \<open>x\<close> or is contained in the
  lower-cased name of the field, and \<open>Off\<close> when the lower-cased value is none of the
  five tokens and is not contained in that name. When the update returns, the step of
  the pass ends with the widget at its position holding that value; when the update
  raises, the step ends with the message of the exception.
\<close>

theorem C4_checkbox_coercion:
  "(map_of wmap key = Some i \<and> i < length (widgets st) \<and> map_of field_data key = Some val
      \<and> field_type (widgets st ! i) = PDF_WIDGET_TYPE_CHECKBOX
     \<longrightarrow> field_value (coerce_exact l (widgets st ! i) val)
           = Some (if str_lower l val \<in> {''yes'', ''true'', ''1'', ''on'', ''x''} then ''Yes'' else ''Off'')
         \<and> (update_raises io i (coerce_exact l (widgets st ! i) val) = None
             \<longrightarrow> fill_exact l io field_data wmap key st
                   = Inr (record_match key i (coerce_exact l (widgets st ! i) val) st)
                 \<and> field_value (widgets (record_match key i (coerce_exact l (widgets st ! i) val) st) ! i)
                     = Some (if str_lower l val \<in> {''yes'', ''true'', ''1'', ''on'', ''x''} then ''Yes'' else ''Off''))
         \<and> (\<forall>msg. update_raises io i (coerce_exact l (widgets st ! i) val) = Some msg
             \<longrightarrow> fill_exact l io field_data wmap key st = Inl msg))
   \<and> (find (\<lambda>(j, w). found_match l (str_lower l key') w) (enumerate 0 (widgets st')) = Some (i', w')
      \<and> map_of field_data' key' = Some val' \<and> field_type w' = PDF_WIDGET_TYPE_CHECKBOX
     \<longrightarrow> (field_value (coerce_fuzzy l w' val') = Some ''Yes''
           \<or> field_value (coerce_fuzzy l w' val') = Some ''Off'')
         \<and> (str_lower l val' \<in> {''yes'', ''true'', ''x''}
              \<or> contains (str_lower l (field_name w')) (str_lower l val')
             \<longrightarrow> field_value (coerce_fuzzy l w' val') = Some ''Yes'')
         \<and> (str_lower l val' \<notin> {''yes'', ''true'', ''1'', ''on'', ''x''}
              \<and> \<not> contains (str_lower l (field_name w')) (str_lower l val')
             \<longrightarrow> field_value (coerce_fuzzy l w' val') = Some ''Off'')
         \<and> (update_raises io' i' (coerce_fuzzy l w' val') = None
             \<longrightarrow> fill_fuzzy l io' field_data' key' st'
                   = Inr (record_match key' i' (coerce_fuzzy l w' val') st')
                 \<and> field_value (widgets (record_match key' i' (coerce_fuzzy l w' val') st') ! i')
                     = field_value (coerce_fuzzy l w' val'))
         \<and> (\<forall>msg. update_raises io' i' (coerce_fuzzy l w' val') = Some msg
             \<longrightarrow> fill_fuzzy l io' field_data' key' st' = Inl msg))"
proof -
  have exact: "field_value (coerce_exact l (widgets st ! i) val)
           = Some (if str_lower l val \<in> {''yes'', ''true'', ''1'', ''on'', ''x''} then ''Yes'' else ''Off'')"
    if "field_type (widgets st ! i) = PDF_WIDGET_TYPE_CHECKBOX"
    using that by (simp add: coerce_exact_def)
  have exact_step: "fill_exact l io field_data wmap key st
           = update_and_record io key i (coerce_exact l (widgets st ! i) val) st"
    if "map_of wmap key = Some i" "map_of field_data key = Some val"
    using that by (simp add: fill_exact_def)
  have stored: "field_value (widgets (record_match k j w s) ! j) = field_value w"
    if "j < length (widgets s)" for k j w s
    using that by (simp add: record_match_def)
  have fuzzy: "field_value (coerce_fuzzy l w' val')
           = Some (if str_lower l val' \<in> {''yes'', ''true'', ''x''}
                      \<or> contains (str_lower l (field_name w')) (str_lower l val')
                   then ''Yes'' else ''Off'')"
    if "field_type w' = PDF_WIDGET_TYPE_CHECKBOX"
    using that by (simp add: coerce_fuzzy_def Let_def)
  have fuzzy_step: "fill_fuzzy l io' field_data' key' st'
           = update_and_record io' key' i' (coerce_fuzzy l w' val') st'"
    if "find (\<lambda>(j, w). found_match l (str_lower l key') w) (enumerate 0 (widgets st')) = Some (i', w')"
      "map_of field_data' key' = Some val'"
    using that by (simp add: fill_fuzzy_def Let_def)
  have one: "map_of wmap key = Some i \<and> i < length (widgets st) \<and> map_of field_data key = Some val
      \<and> field_type (widgets st ! i) = PDF_WIDGET_TYPE_CHECKBOX
     \<longrightarrow> field_value (coerce_exact l (widgets st ! i) val)
           = Some (if str_lower l val \<in> {''yes'', ''true'', ''1'', ''on'', ''x''} then ''Yes'' else ''Off'')
         \<and> (update_raises io i (coerce_exact l (widgets st ! i) val) = None
             \<longrightarrow> fill_exact l io field_data wmap key st
                   = Inr (record_match key i (coerce_exact l (widgets st ! i) val) st)
                 \<and> field_value (widgets (record_match key i (coerce_exact l (widgets st ! i) val) st) ! i)
                     = Some (if str_lower l val \<in> {''yes'', ''true'', ''1'', ''on'', ''x''} then ''Yes'' else ''Off''))
         \<and> (\<forall>msg. update_raises io i (coerce_exact l (widgets st ! i) val) = Some msg
             \<longrightarrow> fill_exact l io field_data wmap key st = Inl msg)"
  proof (intro impI, elim conjE)
    assume a: "map_of wmap key = Some i" "i < length (widgets st)" "map_of field_data key = Some val"
      "field_type (widgets st ! i) = PDF_WIDGET_TYPE_CHECKBOX"
    show "field_value (coerce_exact l (widgets st ! i) val)
           = Some (if str_lower l val \<in> {''yes'', ''true'', ''1'', ''on'', ''x''} then ''Yes'' else ''Off'')
         \<and> (update_raises io i (coerce_exact l (widgets st ! i) val) = None
             \<longrightarrow> fill_exact l io field_data wmap key st
                   = Inr (record_match key i (coerce_exact l (widgets st ! i) val) st)
                 \<and> field_value (widgets (record_match key i (coerce_exact l (widgets st ! i) val) st) ! i)
                     = Some (if str_lower l val \<in> {''yes'', ''true'', ''1'', ''on'', ''x''} then ''Yes'' else ''Off''))
         \<and> (\<forall>msg. update_raises io i (coerce_exact l (widgets st ! i) val) = Some msg
             \<longrightarrow> fill_exact l io field_data wmap key st = Inl msg)"
      unfolding exact_step [OF a(1) a(3)] stored [OF a(2)] exact [OF a(4)]
      by (simp add: update_and_record_def)
  qed
  have two: "find (\<lambda>(j, w). found_match l (str_lower l key') w) (enumerate 0 (widgets st')) = Some (i', w')
      \<and> map_of field_data' key' = Some val' \<and> field_type w' = PDF_WIDGET_TYPE_CHECKBOX
     \<longrightarrow> (field_value (coerce_fuzzy l w' val') = Some ''Yes''
           \<or> field_value (coerce_fuzzy l w' val') = Some ''Off'')
         \<and> (str_lower l val' \<in> {''yes'', ''true'', ''x''}
              \<or> contains (str_lower l (field_name w')) (str_lower l val')
             \<longrightarrow> field_value (coerce_fuzzy l w' val') = Some ''Yes'')
         \<and> (str_lower l val' \<notin> {''yes'', ''true'', ''1'', ''on'', ''x''}
              \<and> \<not> contains (str_lower l (field_name w')) (str_lower l val')
             \<longrightarrow> field_value (coerce_fuzzy l w' val') = Some ''Off'')
         \<and> (update_raises io' i' (coerce_fuzzy l w' val') = None
             \<longrightarrow> fill_fuzzy l io' field_data' key' st'
                   = Inr (record_match key' i' (coerce_fuzzy l w' val') st')
                 \<and> field_value (widgets (record_match key' i' (coerce_fuzzy l w' val') st') ! i')
                     = field_value (coerce_fuzzy l w' val'))
         \<and> (\<forall>msg. update_raises io' i' (coerce_fuzzy l w' val') = Some msg
             \<longrightarrow> fill_fuzzy l io' field_data' key' st' = Inl msg)"
  proof (intro impI, elim conjE)
    assume f: "find (\<lambda>(j, w). found_match l (str_lower l key') w) (enumerate 0 (widgets st')) = Some (i', w')"
      and v: "map_of field_data' key' = Some val'"
      and c: "field_type w' = PDF_WIDGET_TYPE_CHECKBOX"
    from find_enumerate [OF f] have i': "i' < length (widgets st')"
      by simp
    have vals: "(field_value (coerce_fuzzy l w' val') = Some ''Yes''
           \<or> field_value (coerce_fuzzy l w' val') = Some ''Off'')
         \<and> (str_lower l val' \<in> {''yes'', ''true'', ''x''}
              \<or> contains (str_lower l (field_name w')) (str_lower l val')
             \<longrightarrow> field_value (coerce_fuzzy l w' val') = Some ''Yes'')
         \<and> (str_lower l val' \<notin> {''yes'', ''true'', ''1'', ''on'', ''x''}
              \<and> \<not> contains (str_lower l (field_name w')) (str_lower l val')
             \<longrightarrow> field_value (coerce_fuzzy l w' val') = Some ''Off'')"
      unfolding fuzzy [OF c] by simp
    have step: "(update_raises io' i' (coerce_fuzzy l w' val') = None
             \<longrightarrow> fill_fuzzy l io' field_data' key' st'
                   = Inr (record_match key' i' (coerce_fuzzy l w' val') st')
                 \<and> field_value (widgets (record_match key' i' (coerce_fuzzy l w' val') st') ! i')
                     = field_value (coerce_fuzzy l w' val'))
         \<and> (\<forall>msg. update_raises io' i' (coerce_fuzzy l w' val') = Some msg
             \<longrightarrow> fill_fuzzy l io' field_data' key' st' = Inl msg)"
      unfolding fuzzy_step [OF f v] stored [OF i']
      by (simp add: update_and_record_def)
    from vals step
    show "(field_value (coerce_fuzzy l w' val') = Some ''Yes''
           \<or> field_value (coerce_fuzzy l w' val') = Some ''Off'')
         \<and> (str_lower l val' \<in> {''yes'', ''true'', ''x''}
              \<or> contains (str_lower l (field_name w')) (str_lower l val')
             \<longrightarrow> field_value (coerce_fuzzy l w' val') = Some ''Yes'')
         \<and> (str_lower l val' \<notin> {''yes'', ''true'', ''1'', ''on'', ''x''}
              \<and> \<not> contains (str_lower l (field_name w')) (str_lower l val')
             \<longrightarrow> field_value (coerce_fuzzy l w' val') = Some ''Off'')
         \<and> (update_raises io' i' (coerce_fuzzy l w' val') = None
             \<longrightarrow> fill_fuzzy l io' field_data' key' st'
                   = Inr (record_match key' i' (coerce_fuzzy l w' val') st')
                 \<and> field_value (widgets (record_match key' i' (coerce_fuzzy l w' val') st') ! i')
                     = field_value (coerce_fuzzy l w' val'))
         \<and> (\<forall>msg. update_raises io' i' (coerce_fuzzy l w' val') = Some msg
             \<longrightarrow> fill_fuzzy l io' field_data' key' st' = Inl msg)"
      by (intro conjI) simp_all
  qed
  from one two show ?thesis
    by (rule conjI)
qed

text \<open>
  On the form of the examples, whose second field is the checkbox \<open>agree_box\<close>: the
  first pass turns the value \<open>X\<close> under the key \<open>agree_box\<close> into \<open>Yes\<close>; the
  second pass matches the key \<open>agree\<close> and turns the value \<open>no\<close> into \<open>Off\<close>
  and the value \<open>TRUE\<close> into \<open>Yes\<close>. Where the update raises, both passes end with
  its message.
\<close>

theorem C4_checkbox_coercion_witness:
  "(case fill_exact (demo_lib False) demo_io [(''agree_box'', ''X'')]
           (widget_map (index_widgets demo_form)) ''agree_box'' (demo_fill_state [''agree_box'']) of
      Inl msg \<Rightarrow> None | Inr st \<Rightarrow> field_value (widgets st ! 1)) = Some ''Yes''
   \<and> (case fill_fuzzy (demo_lib False) demo_io [(''agree'', ''no'')] ''agree''
           (demo_fill_state [''agree'']) of
      Inl msg \<Rightarrow> None | Inr st \<Rightarrow> field_value (widgets st ! 1)) = Some ''Off''
   \<and> (case fill_fuzzy (demo_lib False) demo_io [(''agree'', ''TRUE'')] ''agree''
           (demo_fill_state [''agree'']) of
      Inl msg \<Rightarrow> None | Inr st \<Rightarrow> field_value (widgets st ! 1)) = Some ''Yes''
   \<and> fill_exact (demo_lib False) demo_io_unbound [(''agree_box'', ''X'')]
        (widget_map (index_widgets demo_form)) ''agree_box'' (demo_fill_state [''agree_box''])
       = Inl ''Annot is not bound to a page''
   \<and> fill_fuzzy (demo_lib False) demo_io_unbound [(''agree'', ''no'')] ''agree''
        (demo_fill_state [''agree''])
       = Inl ''Annot is not bound to a page''"
proof -
  let ?l = "demo_lib False"
  let ?box = "\<lparr>field_name = ''agree_box'', field_label = Some ''I agree'',
                field_type = PDF_WIDGET_TYPE_CHECKBOX, field_value = None\<rparr>"
  have ws: "widgets (demo_fill_state keys)
      = [\<lparr>field_name = ''Name'', field_label = None, field_type = 7, field_value = None\<rparr>, ?box]"
    for keys
    by (simp add: demo_fill_state_def index_widgets_def demo_form_def demo_page_def)
  have wmap: "map_of (widget_map (index_widgets demo_form)) ''agree_box'' = Some 1"
    by (simp add: widget_map_def index_widgets_def demo_form_def demo_page_def)
  have low: "str_lower ?l = ascii_lower"
    by (simp add: demo_lib_def)
  have found: "find (\<lambda>(j, w). found_match ?l (str_lower ?l ''agree'') w)
                 (enumerate 0 (widgets (demo_fill_state [''agree'']))) = Some (1, ?box)"
    by (simp add: ws low found_match_def ascii_lower_def COMMON_MAPPINGS_def a_umlaut_def
        sharp_s_def Let_def)
  have x: "str_lower ?l ''X'' \<in> {''yes'', ''true'', ''1'', ''on'', ''x''}"
    and no: "str_lower ?l ''no'' \<notin> {''yes'', ''true'', ''1'', ''on'', ''x''}"
      "\<not> contains (str_lower ?l (field_name ?box)) (str_lower ?l ''no'')"
    and tr: "str_lower ?l ''TRUE'' \<in> {''yes'', ''true'', ''x''}"
    by (simp_all add: low ascii_lower_def)
  have returns: "update_raises demo_io j w = None"
    and raises: "update_raises demo_io_unbound j w = Some ''Annot is not bound to a page''" for j w
    by (simp_all add: demo_io_unbound_def demo_io_def)
  from C4_checkbox_coercion [where l = ?l and wmap = "widget_map (index_widgets demo_form)"
      and key = "''agree_box''" and i = 1 and st = "demo_fill_state [''agree_box'']"
      and field_data = "[(''agree_box'', ''X'')]" and val = "''X''" and io = demo_io
      and key' = "''agree''" and st' = "demo_fill_state [''agree'']" and i' = 1 and w' = ?box
      and field_data' = "[(''agree'', ''no'')]" and val' = "''no''" and io' = demo_io]
    C4_checkbox_coercion [where l = ?l and wmap = "widget_map (index_widgets demo_form)"
      and key = "''agree_box''" and i = 1 and st = "demo_fill_state [''agree_box'']"
      and field_data = "[(''agree_box'', ''X'')]" and val = "''X''" and io = demo_io_unbound
      and key' = "''agree''" and st' = "demo_fill_state [''agree'']" and i' = 1 and w' = ?box
      and field_data' = "[(''agree'', ''TRUE'')]" and val' = "''TRUE''" and io' = demo_io]
    C4_checkbox_coercion [where l = ?l
      and key' = "''agree''" and st' = "demo_fill_state [''agree'']" and i' = 1 and w' = ?box
      and field_data' = "[(''agree'', ''no'')]" and val' = "''no''" and io' = demo_io_unbound]
    wmap found x no tr
  show ?thesis
    by (simp add: ws low ascii_lower_def returns raises)
qed

text \<open>
  Against C4 as the specification states it. The key \<open>agree\<close> is contained in the
  name of the checkbox \<open>agree_box\<close>, and the value \<open>no\<close> still turns it off. The key
  \<open>i agree\<close> matches the checkbox by its label only and is not contained in its
  name, the value \<open>box\<close> is no truthy token, and the checkbox is turned on all the
  same, because the value is contained in the name.
\<close>

theorem C4_key_in_name_counterexample:
  "contains (ascii_lower ''agree_box'') (ascii_lower ''agree'')
   \<and> (case match_and_fill (demo_lib False) demo_io demo_form [(''agree'', ''no'')] of
        Inl msg \<Rightarrow> [] | Inr st \<Rightarrow> map field_value (widgets st))
       = [None, Some ''Off'']
   \<and> \<not> contains (ascii_lower ''agree_box'') (ascii_lower ''i agree'')
   \<and> ascii_lower ''box'' \<notin> {''yes'', ''true'', ''1'', ''on'', ''x''}
   \<and> (case match_and_fill (demo_lib False) demo_io demo_form [(''i agree'', ''box'')] of
        Inl msg \<Rightarrow> [] | Inr st \<Rightarrow> map field_value (widgets st))
       = [None, Some ''Yes'']"
  by (simp add: match_and_fill_def index_widgets_def widget_map_def demo_form_def demo_page_def demo_io_def
      demo_lib_def fill_exact_def fill_fuzzy_def found_match_def record_match_def
      coerce_fuzzy_def update_and_record_def
      COMMON_MAPPINGS_def ascii_lower_def a_umlaut_def sharp_s_def Let_def)

text \<open>
  Over a whole run of the matcher that no exception ends, a checkbox of the document
  ends with the value it had or with one of \<open>Yes\<close> and \<open>Off\<close>, and the positions
  that \<^verbatim>\<open>widget_map\<close> and the search of the second pass give are positions of the
  list.
\<close>

lemma run_keys_invariant:
  assumes step: "\<And>key s s'. P s \<Longrightarrow> f key s = Inr s' \<Longrightarrow> P s'"
  shows "P st \<Longrightarrow> run_keys f keys st = Inr st' \<Longrightarrow> P st'"
proof (induction keys arbitrary: st)
  case Nil
  then show ?case by simp
next
  case (Cons key keys)
  from Cons.prems(2) obtain s where s: "f key st = Inr s" and rest: "run_keys f keys s = Inr st'"
    by (auto split: sum.splits)
  from step [OF Cons.prems(1) s] rest show ?case
    by (rule Cons.IH)
qed

lemma record_match_checkboxes:
  assumes ok: "checkboxes_binary ws st" and i: "i < length (widgets st)"
    and ty: "field_type w = field_type (widgets st ! i)"
    and v: "field_type w = PDF_WIDGET_TYPE_CHECKBOX \<longrightarrow>
              field_value w = Some ''Yes'' \<or> field_value w = Some ''Off''"
  shows "checkboxes_binary ws (record_match key i w st)"
  using assms
  by (auto simp: checkboxes_binary_def record_match_def nth_list_update)

lemma coerce_exact_checkbox:
  "field_type (coerce_exact l w val) = field_type w"
  "field_type (coerce_exact l w val) = PDF_WIDGET_TYPE_CHECKBOX \<longrightarrow>
     field_value (coerce_exact l w val) = Some ''Yes'' \<or> field_value (coerce_exact l w val) = Some ''Off''"
  by (simp_all add: coerce_exact_def)

lemma coerce_fuzzy_checkbox:
  "field_type (coerce_fuzzy l w val) = field_type w"
  "field_type (coerce_fuzzy l w val) = PDF_WIDGET_TYPE_CHECKBOX \<longrightarrow>
     field_value (coerce_fuzzy l w val) = Some ''Yes'' \<or> field_value (coerce_fuzzy l w val) = Some ''Off''"
  by (simp_all add: coerce_fuzzy_def Let_def)

lemma update_and_record_checkboxes:
  assumes ok: "checkboxes_binary ws st" and i: "i < length (widgets st)"
    and ty: "field_type w = field_type (widgets st ! i)"
    and v: "field_type w = PDF_WIDGET_TYPE_CHECKBOX \<longrightarrow>
              field_value w = Some ''Yes'' \<or> field_value w = Some ''Off''"
    and run: "update_and_record io key i w st = Inr st'"
  shows "checkboxes_binary ws st'"
proof -
  from run have "st' = record_match key i w st"
    by (auto simp: update_and_record_def split: option.splits)
  with record_match_checkboxes [OF ok i ty v] show ?thesis
    by simp
qed

lemma fill_exact_checkboxes:
  assumes ok: "checkboxes_binary ws st"
    and run: "fill_exact l io field_data (widget_map ws) key st = Inr st'"
  shows "checkboxes_binary ws st'"
proof (cases "map_of (widget_map ws) key")
  case None
  with ok run show ?thesis by (simp add: fill_exact_def)
next
  case (Some i)
  from widget_map_in_range [OF Some] ok have i: "i < length (widgets st)"
    by (simp add: checkboxes_binary_def)
  show ?thesis
  proof (cases "map_of field_data key")
    case None
    with ok run Some show ?thesis by (simp add: fill_exact_def)
  next
    case (Some val)
    with \<open>map_of (widget_map ws) key = Some i\<close> run
    have "update_and_record io key i (coerce_exact l (widgets st ! i) val) st = Inr st'"
      by (simp add: fill_exact_def)
    then show ?thesis
      by (rule update_and_record_checkboxes [OF ok i, rotated 2])
        (simp_all add: coerce_exact_checkbox)
  qed
qed

lemma fill_fuzzy_checkboxes:
  assumes ok: "checkboxes_binary ws st"
    and run: "fill_fuzzy l io field_data key st = Inr st'"
  shows "checkboxes_binary ws st'"
proof (cases "find (\<lambda>(i, w). found_match l (str_lower l key) w) (enumerate 0 (widgets st))")
  case None
  with ok run show ?thesis by (simp add: fill_fuzzy_def Let_def)
next
  case (Some p)
  obtain i w where p: "p = (i, w)" by (cases p)
  from find_enumerate [OF Some [unfolded p]] have i: "i < length (widgets st)" and w: "w = widgets st ! i"
    by simp_all
  show ?thesis
  proof (cases "map_of field_data key")
    case None
    with ok run Some p show ?thesis by (simp add: fill_fuzzy_def Let_def)
  next
    case (Some val)
    with \<open>find (\<lambda>(i, w). found_match l (str_lower l key) w) (enumerate 0 (widgets st)) = Some p\<close> p run
    have "update_and_record io key i (coerce_fuzzy l w val) st = Inr st'"
      by (simp add: fill_fuzzy_def Let_def)
    then show ?thesis
      by (rule update_and_record_checkboxes [OF ok i, rotated 2])
        (simp_all add: coerce_fuzzy_checkbox w)
  qed
qed

lemma match_and_fill_checkboxes:
  assumes run: "match_and_fill l io pages field_data = Inr st"
  shows "checkboxes_binary (index_widgets pages) st"
proof -
  let ?ws = "index_widgets pages"
  let ?st0 = "\<lparr>widgets = ?ws, filled_count = 0,
               unmatched_keys = set_order io (map fst field_data), matched_fields_info = []\<rparr>"
  have zero: "checkboxes_binary ?ws ?st0"
    by (simp add: checkboxes_binary_def)
  from run obtain st1 where
    one: "run_keys (fill_exact l io field_data (widget_map ?ws)) (unmatched_keys ?st0) ?st0 = Inr st1"
    and two: "(if unmatched_keys st1 \<noteq> []
               then run_keys (fill_fuzzy l io field_data) (unmatched_keys st1) st1
               else Inr st1) = Inr st"
    by (auto simp: match_and_fill_def Let_def split: sum.splits)
  have ok1: "checkboxes_binary ?ws st1"
    using zero one by (rule run_keys_invariant [rotated]) (rule fill_exact_checkboxes)
  show ?thesis
  proof (cases "unmatched_keys st1 = []")
    case True
    with two ok1 show ?thesis by simp
  next
    case False
    with two have "run_keys (fill_fuzzy l io field_data) (unmatched_keys st1) st1 = Inr st"
      by simp
    with ok1 show ?thesis
      by (rule run_keys_invariant [rotated]) (rule fill_fuzzy_checkboxes)
  qed
qed

text \<open>
  An exception of \<^verbatim>\<open>w.update()\<close> ends the call with the internal error of its
  message, and the ledger is left as it was: the request is not recorded.
\<close>

lemma run_keys_raises:
  "step key st = Inl msg \<Longrightarrow> run_keys step (key # keys) st = Inl msg"
  by simp

lemma pipeline_update_raises:
  assumes miss: "force_recompute \<or> check (protector s) (request_key l form_url field_data) = None"
    and nonempty: "field_data \<noteq> []"
    and acquired: "acquire_document l io s form_url = Inr (content, s1, cache_hit)"
    and opened: "fitz_open l content = Inr pages"
    and raised: "match_and_fill l io pages field_data = Inl msg"
  shows "perform_form_filling_logic l io s form_url field_data output_filename flatten force_recompute
           = (internal_error msg, s1)"
    and "protector s1 = protector s"
proof -
  have "perform_form_filling_logic l io s form_url field_data output_filename flatten force_recompute
      = fill_pipeline l io s (request_key l form_url field_data) form_url field_data output_filename"
    using miss nonempty by (auto simp: perform_form_filling_logic_def Let_def)
  then show "perform_form_filling_logic l io s form_url field_data output_filename flatten force_recompute
           = (internal_error msg, s1)"
    using acquired opened raised by (simp add: fill_pipeline_def Let_def)
  from acquire_document_protector [OF acquired] show "protector s1 = protector s"
    by simp
qed

lemma update_raises_example:
  "hashes (protector (snd (perform_form_filling_logic (demo_lib False) demo_io_unbound demo_server
             ''http://f'' [(''Name'', ''Ann'')] None False False))) = []
   \<and> fst (perform_form_filling_logic (demo_lib False) demo_io_unbound demo_server
             ''http://f'' [(''Name'', ''Ann'')] None False False)
       = internal_error ''Annot is not bound to a page''"
  by (simp add: perform_form_filling_logic_def fill_pipeline_def acquire_document_def
      match_and_fill_def index_widgets_def widget_map_def fill_exact_def update_and_record_def
      check_def demo_server_def demo_lib_def demo_io_unbound_def demo_io_def demo_form_def
      demo_page_def Let_def)

text \<open>A cache file as \<^verbatim>\<open>set\<close> writes it satisfies the invariant of the cache.\<close>

lemma written_cache_file_inv:
  "has_services d \<Longrightarrow>
     cache_inv (new_cache_manager (Parsed (JDict [(''data'', d), (''_timestamp'', JStr ts)])) ttl_s)"
  by (simp add: cache_inv_def new_cache_manager_def)

end
